theory Spec2Isabelle
  imports Main
begin

section \<open>JavaScript values and built-ins used by the auth core\<close>

text \<open>
  Strings are \<open>string\<close>. An optional request field or environment variable is a
  \<open>string option\<close> (\<open>None\<close> is \<open>undefined\<close>). Time is the wall clock in whole seconds.
\<close>

type_synonym objectId = string

text \<open>
  A value that is either a string or a Mongoose ObjectId (given by its 24-digit hex text).
  \<open>User.findById(...)\<close> yields documents whose \<open>_id\<close> is an ObjectId object, not a string.
\<close>

datatype jsval = JString string | JObjectId objectId

text \<open>\<open>s === v\<close> for a string \<open>s\<close>: strict equality never converts, so a string is never
  \<open>===\<close> to an object.\<close>

fun strictEqString :: "string \<Rightarrow> jsval \<Rightarrow> bool" where
  "strictEqString s (JString t) = (s = t)"
| "strictEqString s (JObjectId oid) = False"

text \<open>\<open>String(v)\<close> / \<open>v.toString()\<close>.\<close>

fun toStringJs :: "jsval \<Rightarrow> string" where
  "toStringJs (JString t) = t"
| "toStringJs (JObjectId oid) = oid"

text \<open>Truthiness of an optional string: \<open>undefined\<close> and \<open>''\<close> are falsy.\<close>

fun truthy :: "string option \<Rightarrow> bool" where
  "truthy None = False"
| "truthy (Some s) = (s \<noteq> [])"

text \<open>\<open>a || d\<close> on an optional string.\<close>

fun orElse :: "string option \<Rightarrow> string \<Rightarrow> string" where
  "orElse None d = d"
| "orElse (Some s) d = (if s = [] then d else s)"

text \<open>\<open>String.prototype.toLowerCase\<close> on the ASCII letters.\<close>

definition lowerChar :: "char \<Rightarrow> char" where
  "lowerChar c =
     (case map_of (zip ''ABCDEFGHIJKLMNOPQRSTUVWXYZ'' ''abcdefghijklmnopqrstuvwxyz'') c of
        None \<Rightarrow> c | Some d \<Rightarrow> d)"

definition toLowerCase :: "string \<Rightarrow> string" where
  "toLowerCase s = map lowerChar s"

text \<open>\<open>Array.prototype.join\<close>.\<close>

fun join :: "string \<Rightarrow> string list \<Rightarrow> string" where
  "join sep [] = []"
| "join sep [x] = x"
| "join sep (x # y # ys) = x @ sep @ join sep (y # ys)"

text \<open>\<open>String.prototype.startsWith\<close> and \<open>substring(n)\<close>.\<close>

definition startsWith :: "string \<Rightarrow> string \<Rightarrow> bool" where
  "startsWith s p = (take (length p) s = p)"

definition substring :: "nat \<Rightarrow> string \<Rightarrow> string" where
  "substring n s = drop n s"

subsection \<open>\<open>parseInt\<close>\<close>

text \<open>
  A JavaScript number that \<open>parseInt\<close> can return: \<open>NaN\<close>, an integer that a double
  represents, or an infinity.
\<close>

datatype jsnum = NaN | Num int | PosInfinity | NegInfinity

fun negate :: "jsnum \<Rightarrow> jsnum" where
  "negate NaN = NaN"
| "negate (Num n) = Num (- n)"
| "negate PosInfinity = NegInfinity"
| "negate NegInfinity = PosInfinity"

text \<open>The number of binary digits of a natural number.\<close>

fun bitLength :: "nat \<Rightarrow> nat" where
  "bitLength n = (if n = 0 then 0 else Suc (bitLength (n div 2)))"

declare bitLength.simps [simp del]

text \<open>
  The Number value of a non-negative integer: itself below \<open>2^53\<close>; above, the nearest
  number with 53 significant binary digits, a tie going to the even one; \<open>Infinity\<close> when
  that reaches \<open>2^1024\<close>.
\<close>

definition toDouble :: "nat \<Rightarrow> jsnum" where
  "toDouble n =
     (if n < 2 ^ 53 then Num (int n)
      else
        let k = bitLength n - 53;
            q = n div 2 ^ k;
            r = n mod 2 ^ k;
            q' = (if 2 ^ k < 2 * r \<or> (2 * r = 2 ^ k \<and> odd q) then q + 1 else q);
            m = q' * 2 ^ k
        in if 2 ^ 1024 \<le> m then PosInfinity else Num (int m))"

text \<open>
  \<open>parseInt(s)\<close> with no radix: leading white space is skipped, an optional sign is read,
  a \<open>0x\<close> prefix selects base 16, then the longest run of digits is taken; with no digit the
  result is \<open>NaN\<close>. The digits' value becomes a Number (a double), so it is rounded above
  \<open>2^53\<close>. \<open>parseInt(undefined)\<close> is \<open>NaN\<close>.
\<close>

definition isWhite :: "char \<Rightarrow> bool" where
  "isWhite c = (c \<in> set [CHR '' '', CHR 0x09, CHR 0x0A, CHR 0x0B, CHR 0x0C, CHR 0x0D])"

definition digitVal :: "char \<Rightarrow> nat option" where
  "digitVal c = map_of (zip ''0123456789'' [0, 1, 2, 3, 4, 5, 6, 7, 8, 9]) c"

definition hexVal :: "char \<Rightarrow> nat option" where
  "hexVal c =
     map_of (zip ''0123456789abcdefABCDEF''
       [0, 1, 2, 3, 4, 5, 6, 7, 8, 9, 10, 11, 12, 13, 14, 15, 10, 11, 12, 13, 14, 15]) c"

fun digitsValue :: "(char \<Rightarrow> nat option) \<Rightarrow> nat \<Rightarrow> nat \<Rightarrow> string \<Rightarrow> nat" where
  "digitsValue dv base acc [] = acc"
| "digitsValue dv base acc (c # cs) =
     (case dv c of None \<Rightarrow> acc | Some d \<Rightarrow> digitsValue dv base (acc * base + d) cs)"

definition parseDigits :: "(char \<Rightarrow> nat option) \<Rightarrow> nat \<Rightarrow> string \<Rightarrow> nat option" where
  "parseDigits dv base s =
     (case s of [] \<Rightarrow> None
      | c # cs \<Rightarrow> (case dv c of None \<Rightarrow> None | Some d \<Rightarrow> Some (digitsValue dv base 0 s)))"

definition parseUnsigned :: "string \<Rightarrow> nat option" where
  "parseUnsigned s =
     (if startsWith s ''0x'' \<or> startsWith s ''0X'' then parseDigits hexVal 16 (drop 2 s)
      else parseDigits digitVal 10 s)"

definition numberOf :: "nat option \<Rightarrow> jsnum" where
  "numberOf v = (case v of None \<Rightarrow> NaN | Some n \<Rightarrow> toDouble n)"

definition parseIntString :: "string \<Rightarrow> jsnum" where
  "parseIntString s =
     (case dropWhile isWhite s of
        [] \<Rightarrow> NaN
      | c # cs \<Rightarrow>
          (if c = CHR ''-'' then negate (numberOf (parseUnsigned cs))
           else if c = CHR ''+'' then numberOf (parseUnsigned cs)
           else numberOf (parseUnsigned (c # cs))))"

fun parseInt :: "string option \<Rightarrow> jsnum" where
  "parseInt None = NaN"
| "parseInt (Some s) = parseIntString s"

text \<open>\<open>parseInt(x) || d\<close>: \<open>NaN\<close> and \<open>0\<close> are falsy, every other number is kept.\<close>

fun numOr :: "jsnum \<Rightarrow> int \<Rightarrow> jsnum" where
  "numOr NaN d = Num d"
| "numOr (Num n) d = (if n = 0 then Num d else Num n)"
| "numOr PosInfinity d = PosInfinity"
| "numOr NegInfinity d = NegInfinity"

section \<open>Errors (\<open>middleware/errorHandler.js\<close>)\<close>

text \<open>
  What a handler throws: an \<open>ApiError(statusCode, message)\<close>; a plain \<open>Error(message)\<close>,
  which the error handler answers with status 500 (\<open>error.statusCode || 500\<close>); a Mongoose
  \<open>ValidationError\<close> with its messages, answered with 400; or the store's duplicate-key
  error (code 11000) naming the indexed field, answered with 409.
\<close>

datatype error =
  ApiError nat string
| Error string
| MongoValidationError "string list"
| MongoDuplicateKey string

fun statusCode :: "error \<Rightarrow> nat" where
  "statusCode (ApiError c m) = c"
| "statusCode (Error m) = 500"
| "statusCode (MongoValidationError ms) = 400"
| "statusCode (MongoDuplicateKey field) = 409"

definition validationErrorHandler :: "string list \<Rightarrow> error" where
  "validationErrorHandler msgs = ApiError 400 (join '', '' msgs)"

definition authorizationErrorHandler :: "string \<Rightarrow> error" where
  "authorizationErrorHandler m = ApiError 403 m"

definition authenticationErrorHandler :: "string \<Rightarrow> error" where
  "authenticationErrorHandler m = ApiError 401 m"

definition notFoundErrorHandler :: "string \<Rightarrow> error" where
  "notFoundErrorHandler resource = ApiError 404 (resource @ '' not found'')"

definition conflictErrorHandler :: "string \<Rightarrow> error" where
  "conflictErrorHandler m = ApiError 409 m"

section \<open>External libraries and configuration\<close>

text \<open>
  \<open>jsonwebtoken\<close> and \<open>bcryptjs\<close> are not part of the repository; the handlers take them as
  a parameter. \<open>jwt_sign secret now expiresIn claims\<close> is \<open>jwt.sign(claims, secret, {expiresIn})\<close>
  called at time \<open>now\<close>; \<open>jwt_verify secret now token\<close> is \<open>jwt.verify(token, secret)\<close>;
  \<open>bcrypt_hash salt data\<close> is \<open>bcrypt.hash\<close> with the salt it drew; \<open>bcrypt_compare data hash\<close>
  is \<open>bcrypt.compare\<close>.
\<close>

record claims =
  sub :: objectId
  tokType :: "string option"
  cEmail :: "string option"
  cRole :: "string option"
  cPermissions :: "string list option"

record decoded = claims +
  iat :: nat
  exp :: nat

datatype jwtError = JsonWebTokenError | TokenExpiredError | NotBeforeError

record libs =
  jwt_sign :: "string \<Rightarrow> nat \<Rightarrow> string \<Rightarrow> claims \<Rightarrow> string"
  jwt_verify :: "string \<Rightarrow> nat \<Rightarrow> string \<Rightarrow> jwtError + decoded"
  bcrypt_hash :: "string \<Rightarrow> string \<Rightarrow> string"
  bcrypt_compare :: "string \<Rightarrow> string \<Rightarrow> bool"

text \<open>\<open>process.env\<close>.\<close>

record env =
  REDIS_ENABLED :: "string option"
  JWT_SECRET :: string
  JWT_EXPIRES_IN :: "string option"
  JWT_REFRESH_EXPIRES_IN :: "string option"

definition isRedisEnabled :: "env \<Rightarrow> bool" where
  "isRedisEnabled e = (REDIS_ENABLED e = Some ''true'')"

text \<open>
  What a single request draws from its surroundings: the clock, the salt \<open>bcrypt.genSalt\<close>
  returns for a password, the salt \<open>bcrypt.hash(token, 10)\<close> draws for a token, the \<open>_id\<close>
  Mongoose gives a new document, and the outcome of the mail transport's \<open>sendMail\<close>
  (\<open>None\<close>: it resolves; \<open>Some m\<close>: it rejects with an error of message \<open>m\<close>).
\<close>

record ctx =
  now :: nat
  salt :: string
  tokenSalt :: string
  newObjectId :: objectId
  sendMailError :: "string option"

section \<open>The User model (\<open>models/User.js\<close>)\<close>

record user =
  user_id :: objectId
  email :: string
  passwordHash :: string
  firstName :: string
  lastName :: string
  role :: string
  studentId :: "string option"
  department :: "string option"
  yearOfStudy :: "string option"
  phone :: "string option"
  isActive :: bool
  emailVerified :: bool
  lastLogin :: "nat option"
  permissions :: "string list"

definition rolePermissions :: "(string \<times> string list) list" where
  "rolePermissions =
    [(''student'', [''read:projects'', ''read:workshops'', ''read:events'', ''read:inventory'',
        ''read:news'', ''read:media'']),
     (''team_member'', [''read:projects'', ''write:projects'', ''read:workshops'', ''read:events'',
        ''read:inventory'', ''read:news'', ''read:media'']),
     (''mentor'', [''read:projects'', ''write:projects'', ''delete:projects'', ''read:workshops'',
        ''write:workshops'', ''read:events'', ''write:events'', ''read:inventory'',
        ''write:inventory'', ''read:requests'', ''approve:requests'', ''read:news'', ''write:news'',
        ''read:media'', ''write:media'']),
     (''researcher'', [''read:projects'', ''write:projects'', ''delete:projects'',
        ''read:workshops'', ''write:workshops'', ''delete:workshops'', ''read:events'',
        ''write:events'', ''delete:events'', ''read:inventory'', ''write:inventory'',
        ''delete:inventory'', ''read:requests'', ''write:requests'', ''approve:requests'',
        ''read:news'', ''write:news'', ''delete:news'', ''read:media'', ''write:media'',
        ''delete:media'']),
     (''community'', [''read:projects'', ''read:workshops'', ''read:events'', ''read:news'',
        ''read:media'']),
     (''admin'', [''read:projects'', ''write:projects'', ''delete:projects'', ''manage:projects'',
        ''read:workshops'', ''write:workshops'', ''delete:workshops'', ''read:events'',
        ''write:events'', ''delete:events'', ''read:inventory'', ''write:inventory'',
        ''delete:inventory'', ''manage:inventory'', ''read:requests'', ''write:requests'',
        ''approve:requests'', ''read:news'', ''write:news'', ''delete:news'', ''read:media'',
        ''write:media'', ''delete:media'', ''read:users'', ''write:users'', ''delete:users'',
        ''manage:finance'', ''manage:system'', ''system:admin''])]"

text \<open>\<open>rolePermissions[this.role] || []\<close>: a role that is no key of the table gives the
  empty list. (The schema restricts \<open>role\<close> to the six keys; the property names every
  JavaScript object inherits are not roles and are left out.)\<close>

definition getDefaultPermissions :: "user \<Rightarrow> string list" where
  "getDefaultPermissions u =
     (case map_of rolePermissions (role u) of None \<Rightarrow> [] | Some ps \<Rightarrow> ps)"

text \<open>
  The two \<open>pre('save')\<close> hooks. \<open>modified\<close> lists the paths for which \<open>isModified\<close> is true.
  The first rewrites a modified \<open>passwordHash\<close> with its bcrypt hash; the second fills in the
  role's default permissions.
\<close>

definition preSavePassword :: "libs \<Rightarrow> ctx \<Rightarrow> string list \<Rightarrow> user \<Rightarrow> user" where
  "preSavePassword L c modified u =
     (if ''passwordHash'' \<notin> set modified then u
      else u\<lparr>passwordHash := bcrypt_hash L (salt c) (passwordHash u)\<rparr>)"

definition preSavePermissions :: "string list \<Rightarrow> user \<Rightarrow> user" where
  "preSavePermissions modified u =
     (if ''role'' \<in> set modified \<and> length (permissions u) = 0
      then u\<lparr>permissions := getDefaultPermissions u\<rparr>
      else u)"

definition preSave :: "libs \<Rightarrow> ctx \<Rightarrow> string list \<Rightarrow> user \<Rightarrow> user" where
  "preSave L c modified u = preSavePermissions modified (preSavePassword L c modified u)"

definition generateAuthToken :: "libs \<Rightarrow> env \<Rightarrow> nat \<Rightarrow> user \<Rightarrow> string" where
  "generateAuthToken L e t u =
     jwt_sign L (JWT_SECRET e) t (orElse (JWT_EXPIRES_IN e) ''24h'')
       \<lparr>sub = user_id u, tokType = None, cEmail = Some (email u), cRole = Some (role u),
        cPermissions = Some (permissions u)\<rparr>"

definition generateRefreshToken :: "libs \<Rightarrow> env \<Rightarrow> nat \<Rightarrow> user \<Rightarrow> string" where
  "generateRefreshToken L e t u =
     jwt_sign L (JWT_SECRET e) t (orElse (JWT_REFRESH_EXPIRES_IN e) ''7d'')
       \<lparr>sub = user_id u, tokType = Some ''refresh'', cEmail = None, cRole = None,
        cPermissions = None\<rparr>"

definition comparePassword :: "libs \<Rightarrow> user \<Rightarrow> string \<Rightarrow> bool" where
  "comparePassword L u candidate = bcrypt_compare L candidate (passwordHash u)"

section \<open>Stores\<close>

text \<open>
  The document store holds the \<open>User\<close> and \<open>RoleApproval\<close> collections in insertion order
  (\<open>findOne\<close> returns the first match). The session store (Redis) maps a key to a value
  with the second at which it was set and its time to live: \<open>setEx key ttl v\<close> at time \<open>t\<close>
  keeps \<open>v\<close> readable while the clock is below \<open>t + ttl\<close> (Redis accepts a positive whole
  \<open>ttl\<close> in its range only; the model does not represent its refusal of another one).
  Both stores are reachable and answer every call; the rate limiter in front of the login
  route is not part of the model.
\<close>

record roleApproval =
  approvalEmail :: string
  allowedRoles :: "string list"
  approvalNote :: "string option"
  approvalActive :: bool

type_synonym redisStore = "string \<Rightarrow> (nat \<times> jsnum \<times> string) option"

record state =
  users :: "user list"
  approvals :: "roleApproval list"
  redis :: redisStore

text \<open>Whether an entry set at second \<open>t0\<close> with the time to live \<open>ttl\<close> is still there at
  second \<open>t\<close>.\<close>

fun alive :: "nat \<Rightarrow> nat \<Rightarrow> jsnum \<Rightarrow> bool" where
  "alive t t0 (Num n) = (int t < int t0 + n)"
| "alive t t0 PosInfinity = True"
| "alive t t0 NegInfinity = False"
| "alive t t0 NaN = False"

definition redis_get :: "nat \<Rightarrow> redisStore \<Rightarrow> string \<Rightarrow> string option" where
  "redis_get t store k =
     (case store k of None \<Rightarrow> None
      | Some (t0, ttl, v) \<Rightarrow> if alive t t0 ttl then Some v else None)"

definition redis_setEx :: "nat \<Rightarrow> redisStore \<Rightarrow> string \<Rightarrow> jsnum \<Rightarrow> string \<Rightarrow> redisStore" where
  "redis_setEx t store k ttl v = store(k \<mapsto> (t, ttl, v))"

definition redis_del :: "redisStore \<Rightarrow> string \<Rightarrow> redisStore" where
  "redis_del store k = store(k := None)"

text \<open>The time to live of a key when read at time \<open>t\<close> (Redis \<open>TTL\<close>).\<close>

fun remaining :: "nat \<Rightarrow> nat \<Rightarrow> jsnum \<Rightarrow> jsnum" where
  "remaining t t0 (Num n) = Num (int t0 + n - int t)"
| "remaining t t0 PosInfinity = PosInfinity"
| "remaining t t0 NegInfinity = NegInfinity"
| "remaining t t0 NaN = NaN"

definition redis_ttl :: "nat \<Rightarrow> redisStore \<Rightarrow> string \<Rightarrow> jsnum option" where
  "redis_ttl t store k =
     (case store k of None \<Rightarrow> None | Some (t0, ttl, v) \<Rightarrow> Some (remaining t t0 ttl))"

text \<open>\<open>User.findOne({ email })\<close>: the schema lower-cases the e-mail it is asked for.\<close>

definition findUserByEmail :: "user list \<Rightarrow> string \<Rightarrow> user option" where
  "findUserByEmail us e = find (\<lambda>u. email u = toLowerCase e) us"

definition findUserByStudentId :: "user list \<Rightarrow> string \<Rightarrow> user option" where
  "findUserByStudentId us sid = find (\<lambda>u. studentId u = Some sid) us"

definition findUserById :: "user list \<Rightarrow> objectId \<Rightarrow> user option" where
  "findUserById us i = find (\<lambda>u. user_id u = i) us"

text \<open>\<open>RoleApproval.findOne({ email, isActive: true })\<close>.\<close>

definition findActiveApproval :: "roleApproval list \<Rightarrow> string \<Rightarrow> roleApproval option" where
  "findActiveApproval as e = find (\<lambda>a. approvalEmail a = e \<and> approvalActive a) as"

text \<open>\<open>!approval || !approval.allowedRoles.includes(r)\<close>.\<close>

definition notPreApproved :: "roleApproval option \<Rightarrow> string \<Rightarrow> bool" where
  "notPreApproved approval r =
     (case approval of None \<Rightarrow> True | Some a \<Rightarrow> r \<notin> set (allowedRoles a))"

text \<open>\<open>document.save()\<close> of an existing document: it replaces the stored one of the same id.\<close>

definition saveUser :: "user list \<Rightarrow> user \<Rightarrow> user list" where
  "saveUser us u = map (\<lambda>v. if user_id v = user_id u then u else v) us"

text \<open>The insert behind \<open>save()\<close> of a new user. The schema declares a unique index on
  \<open>email\<close> and a unique, sparse index on \<open>studentId\<close>: a document without a student id is
  not indexed, one with any student id (the empty string too) is.\<close>

definition insertUser :: "user list \<Rightarrow> user \<Rightarrow> error + user list" where
  "insertUser us u =
     (if find (\<lambda>v. email v = email u) us \<noteq> None then Inl (MongoDuplicateKey ''email'')
      else if studentId u \<noteq> None \<and> find (\<lambda>v. studentId v = studentId u) us \<noteq> None
      then Inl (MongoDuplicateKey ''studentId'')
      else Inr (us @ [u]))"

definition refreshKey :: "objectId \<Rightarrow> string" where
  "refreshKey i = ''refresh_token:'' @ i"

definition blacklistKey :: "string \<Rightarrow> string" where
  "blacklistKey token = ''blacklist:'' @ token"

definition passwordResetKey :: "objectId \<Rightarrow> string" where
  "passwordResetKey i = ''password_reset:'' @ i"

definition quoted :: "string \<Rightarrow> string" where
  "quoted s = CHR 0x27 # s @ [CHR 0x27]"

section \<open>Responses\<close>

text \<open>A handler's outcome is the error handed to the error middleware (\<open>Inl\<close>) or the
  response it sent (\<open>Inr\<close>).\<close>

fun succeeded :: "error + 'a \<Rightarrow> bool" where
  "succeeded (Inl err) = False"
| "succeeded (Inr resp) = True"

record roleNotice =
  requestedRole :: string
  assignedRole :: string
  noticeMessage :: string

record authResponse =
  status :: nat
  message :: string
  resUser :: user
  accessToken :: string
  refreshToken :: string
  expiresIn :: string
  roleNoticeField :: "roleNotice option"

record tokenResponse =
  tStatus :: nat
  tMessage :: string
  tAccessToken :: string
  tRefreshToken :: string
  tExpiresIn :: string

record plainResponse =
  pStatus :: nat
  pMessage :: string

section \<open>\<open>POST /api/auth/register\<close>\<close>

text \<open>
  The request body after the sanitizers have run. The validators of \<open>express-validator\<close> for
  the fields before and after \<open>role\<close> are represented by the messages they produced; the
  \<open>role\<close> validator is \<open>optional().isIn([...])\<close>. \<open>schemaErrors\<close> holds the messages of the
  Mongoose schema validators that run when the new document is saved.
\<close>

record registerBody =
  regEmail :: string
  regPassword :: string
  regFirstName :: string
  regLastName :: string
  regRole :: "string option"
  regStudentId :: "string option"
  regDepartment :: "string option"
  regYearOfStudy :: "string option"
  regPhone :: "string option"
  errorsBeforeRole :: "string list"
  errorsAfterRole :: "string list"
  schemaErrors :: "string list"

definition registerRoles :: "string list" where
  "registerRoles = [''student'', ''team_member'', ''mentor'', ''researcher'', ''community'']"

definition roleErrors :: "string option \<Rightarrow> string list" where
  "roleErrors r =
     (case r of None \<Rightarrow> []
      | Some v \<Rightarrow> if v \<in> set registerRoles then [] else [''Invalid role specified''])"

definition registerValidation :: "registerBody \<Rightarrow> string list" where
  "registerValidation b = errorsBeforeRole b @ roleErrors (regRole b) @ errorsAfterRole b"

text \<open>\<open>7 * 24 * 60 * 60\<close> and \<open>24 * 60 * 60\<close>.\<close>

definition refreshTtl :: "env \<Rightarrow> jsnum" where
  "refreshTtl e = numOr (parseInt (JWT_REFRESH_EXPIRES_IN e)) (7 * 24 * 60 * 60)"

definition blacklistTtl :: "env \<Rightarrow> jsnum" where
  "blacklistTtl e = numOr (parseInt (JWT_EXPIRES_IN e)) (24 * 60 * 60)"

text \<open>The block shared by register, login and refresh: store the hash of the refresh token
  only when Redis is enabled.\<close>

definition storeRefreshHash :: "libs \<Rightarrow> env \<Rightarrow> ctx \<Rightarrow> objectId \<Rightarrow> string \<Rightarrow> state \<Rightarrow> state" where
  "storeRefreshHash L e c i token st =
     (if isRedisEnabled e
      then st\<lparr>redis := redis_setEx (now c) (redis st) (refreshKey i) (refreshTtl e)
                          (bcrypt_hash L (tokenSalt c) token)\<rparr>
      else st)"

definition newUser :: "ctx \<Rightarrow> registerBody \<Rightarrow> string \<Rightarrow> user" where
  "newUser c b assigned =
     \<lparr>user_id = newObjectId c, email = toLowerCase (regEmail b), passwordHash = regPassword b,
      firstName = regFirstName b, lastName = regLastName b, role = assigned,
      studentId = regStudentId b, department = regDepartment b,
      yearOfStudy = regYearOfStudy b, phone = regPhone b, isActive = True,
      emailVerified = False, lastLogin = None, permissions = []\<rparr>"

text \<open>Lines 130-140 and 156-166: the destructuring default \<open>role = 'student'\<close>, then
  \<open>assignedRole = role || 'student'\<close>, which is turned into \<open>student\<close> (with \<open>roleAdjusted\<close>
  set) when it is another role that no active approval of the lower-cased e-mail allows.\<close>

definition requestedRoleOf :: "registerBody \<Rightarrow> string" where
  "requestedRoleOf b = (case regRole b of None \<Rightarrow> ''student'' | Some r \<Rightarrow> r)"

definition roleAdjusted :: "state \<Rightarrow> registerBody \<Rightarrow> bool" where
  "roleAdjusted st b =
     (let assigned0 = (if requestedRoleOf b = [] then ''student'' else requestedRoleOf b)
      in assigned0 \<noteq> ''student'' \<and>
         notPreApproved (findActiveApproval (approvals st) (toLowerCase (regEmail b)))
           assigned0)"

definition assignedRoleOf :: "state \<Rightarrow> registerBody \<Rightarrow> string" where
  "assignedRoleOf st b =
     (if roleAdjusted st b then ''student''
      else if requestedRoleOf b = [] then ''student'' else requestedRoleOf b)"

text \<open>Lines 168-237: create and save the user (schema validation, the \<open>pre('save')\<close> hooks,
  the insert), issue the tokens, store the refresh hash, send the response.\<close>

definition registerCreate :: "libs \<Rightarrow> env \<Rightarrow> ctx \<Rightarrow> state \<Rightarrow> registerBody \<Rightarrow> state \<times> (error + authResponse)" where
  "registerCreate L e c st b =
     (if schemaErrors b \<noteq> [] then (st, Inl (MongoValidationError (schemaErrors b)))
      else
        let u = preSave L c [''email'', ''passwordHash'', ''firstName'', ''lastName'', ''role'']
                  (newUser c b (assignedRoleOf st b))
        in case insertUser (users st) u of
             Inl err \<Rightarrow> (st, Inl err)
           | Inr us \<Rightarrow>
               (let st1 = st\<lparr>users := us\<rparr>;
                    access = generateAuthToken L e (now c) u;
                    refresh = generateRefreshToken L e (now c) u;
                    st2 = storeRefreshHash L e c (user_id u) refresh st1
                in (st2, Inr \<lparr>status = 201,
                      message = (if roleAdjusted st b
                         then ''User registered successfully. Requested role '' @
                              quoted (requestedRoleOf b) @
                              '' is not pre-approved; assigned '' @ quoted ''student'' @ ''.''
                         else ''User registered successfully''),
                      resUser = u, accessToken = access, refreshToken = refresh,
                      expiresIn = orElse (JWT_EXPIRES_IN e) ''24h'',
                      roleNoticeField = (if roleAdjusted st b
                         then Some \<lparr>requestedRole = requestedRoleOf b, assignedRole = role u,
                           noticeMessage = ''Your requested role is not pre-approved. You have been registered as a student. An admin can update your role later.''\<rparr>
                         else None)\<rparr>)))"

text \<open>Lines 123-154: the validation step and the two uniqueness checks.\<close>

definition register :: "libs \<Rightarrow> env \<Rightarrow> ctx \<Rightarrow> state \<Rightarrow> registerBody \<Rightarrow> state \<times> (error + authResponse)" where
  "register L e c st b =
     (if registerValidation b \<noteq> [] then (st, Inl (validationErrorHandler (registerValidation b)))
      else if findUserByEmail (users st) (regEmail b) \<noteq> None
      then (st, Inl (conflictErrorHandler ''User with this email already exists''))
      else if truthy (regStudentId b) \<and>
              findUserByStudentId (users st) (the (regStudentId b)) \<noteq> None
      then (st, Inl (conflictErrorHandler ''Student ID is already taken''))
      else registerCreate L e c st b)"

section \<open>\<open>POST /api/auth/login\<close>\<close>

record loginBody =
  loginEmail :: string
  loginPassword :: string
  desiredRole :: "string option"
  loginErrors :: "string list"

definition loginRoles :: "string list" where
  "loginRoles = [''student'', ''team_member'', ''mentor'', ''researcher'', ''community'', ''admin'']"

definition loginValidation :: "loginBody \<Rightarrow> string list" where
  "loginValidation b =
     loginErrors b @
     (case desiredRole b of None \<Rightarrow> []
      | Some v \<Rightarrow> if v \<in> set loginRoles then [] else [''Invalid desired role specified''])"

definition loginNotice :: "state \<Rightarrow> user \<Rightarrow> string option \<Rightarrow> roleNotice option" where
  "loginNotice st u d =
     (if truthy d \<and> the d \<noteq> role u
      then (if notPreApproved (findActiveApproval (approvals st) (toLowerCase (email u))) (the d)
            then Some \<lparr>requestedRole = the d, assignedRole = role u,
                   noticeMessage = ''Requested role '' @ quoted (the d) @
                     '' is not pre-approved. Continuing as '' @ quoted (role u) @
                     ''. Please log in as student or contact admin.''\<rparr>
            else Some \<lparr>requestedRole = the d, assignedRole = role u,
                   noticeMessage = ''Requested role '' @ quoted (the d) @
                     '' is approved but not yet assigned to your account. Continuing as '' @
                     quoted (role u) @ ''. An admin can update your role.''\<rparr>)
      else None)"

definition login :: "libs \<Rightarrow> env \<Rightarrow> ctx \<Rightarrow> state \<Rightarrow> loginBody \<Rightarrow> state \<times> (error + authResponse)" where
  "login L e c st b =
     (if loginValidation b \<noteq> [] then (st, Inl (validationErrorHandler (loginValidation b)))
      else case findUserByEmail (users st) (loginEmail b) of
        None \<Rightarrow> (st, Inl (authenticationErrorHandler ''Invalid email or password''))
      | Some u0 \<Rightarrow>
          if \<not> isActive u0
          then (st, Inl (authorizationErrorHandler
                  ''Account is deactivated. Please contact administrator.''))
          else if \<not> comparePassword L u0 (loginPassword b)
          then (st, Inl (authenticationErrorHandler ''Invalid email or password''))
          else
            let u = preSave L c [''lastLogin''] (u0\<lparr>lastLogin := Some (now c)\<rparr>);
                st1 = st\<lparr>users := saveUser (users st) u\<rparr>;
                access = generateAuthToken L e (now c) u;
                refresh = generateRefreshToken L e (now c) u;
                st2 = storeRefreshHash L e c (user_id u) refresh st1
            in (st2, Inr \<lparr>status = 200, message = ''Login successful'', resUser = u,
                  accessToken = access, refreshToken = refresh,
                  expiresIn = orElse (JWT_EXPIRES_IN e) ''24h'',
                  roleNoticeField = loginNotice st u (desiredRole b)\<rparr>))"

section \<open>\<open>POST /api/auth/refresh\<close>\<close>

text \<open>The \<open>catch\<close> block: the two named JWT errors are replaced by plain errors, anything
  else is rethrown.\<close>

fun refreshJwtError :: "jwtError \<Rightarrow> error" where
  "refreshJwtError JsonWebTokenError = Error ''Invalid refresh token''"
| "refreshJwtError TokenExpiredError = Error ''Refresh token expired''"
| "refreshJwtError NotBeforeError = Error ''jwt not active''"

text \<open>Lines 367-377: the comparison of the presented token with the stored hash, made only
  when Redis is enabled.\<close>

definition storedHashCheck :: "libs \<Rightarrow> nat \<Rightarrow> state \<Rightarrow> objectId \<Rightarrow> string \<Rightarrow> error option" where
  "storedHashCheck L t st i token =
     (case redis_get t (redis st) (refreshKey i) of
        None \<Rightarrow> Some (Error ''Refresh token not found or expired'')
      | Some h \<Rightarrow>
          if h = [] then Some (Error ''Refresh token not found or expired'')
          else if \<not> bcrypt_compare L token h then Some (Error ''Invalid refresh token'')
          else None)"

definition refresh :: "libs \<Rightarrow> env \<Rightarrow> ctx \<Rightarrow> state \<Rightarrow> string option \<Rightarrow> state \<times> (error + tokenResponse)" where
  "refresh L e c st rt =
     (if \<not> truthy rt then (st, Inl (Error ''Refresh token is required''))
      else case jwt_verify L (JWT_SECRET e) (now c) (the rt) of
        Inl je \<Rightarrow> (st, Inl (refreshJwtError je))
      | Inr d \<Rightarrow>
          if tokType d \<noteq> Some ''refresh'' then (st, Inl (Error ''Invalid token type''))
          else if isRedisEnabled e \<and> storedHashCheck L (now c) st (sub d) (the rt) \<noteq> None
          then (st, Inl (the (storedHashCheck L (now c) st (sub d) (the rt))))
          else (case findUserById (users st) (sub d) of
            None \<Rightarrow> (st, Inl (Error ''User not found or inactive''))
          | Some u \<Rightarrow>
              if \<not> isActive u then (st, Inl (Error ''User not found or inactive''))
              else
                let access = generateAuthToken L e (now c) u;
                    newRefresh = generateRefreshToken L e (now c) u;
                    st1 = storeRefreshHash L e c (user_id u) newRefresh st
                in (st1, Inr \<lparr>tStatus = 200, tMessage = ''Token refreshed successfully'',
                      tAccessToken = access, tRefreshToken = newRefresh,
                      tExpiresIn = orElse (JWT_EXPIRES_IN e) ''24h''\<rparr>)))"

section \<open>\<open>POST /api/auth/logout\<close>\<close>

text \<open>The access token is taken from the \<open>Authorization\<close> header with \<open>substring(7)\<close> and
  black-listed for \<open>parseInt(process.env.JWT_EXPIRES_IN) || 24 * 60 * 60\<close> seconds.\<close>

definition blacklistHeader :: "env \<Rightarrow> nat \<Rightarrow> string option \<Rightarrow> redisStore \<Rightarrow> redisStore" where
  "blacklistHeader e t header store =
     (if truthy header
      then redis_setEx t store (blacklistKey (substring 7 (the header))) (blacklistTtl e) ''revoked''
      else store)"

fun logoutJwtError :: "jwtError \<Rightarrow> error" where
  "logoutJwtError JsonWebTokenError = Error ''Invalid refresh token''"
| "logoutJwtError TokenExpiredError = Error ''Refresh token expired''"
| "logoutJwtError NotBeforeError = Error ''jwt not active''"

record logoutRequest =
  logoutRefreshToken :: "string option"
  logoutAuthorization :: "string option"

definition logout :: "libs \<Rightarrow> env \<Rightarrow> ctx \<Rightarrow> state \<Rightarrow> logoutRequest \<Rightarrow> state \<times> (error + plainResponse)" where
  "logout L e c st r =
     (if \<not> truthy (logoutRefreshToken r) then (st, Inl (Error ''Refresh token is required''))
      else case jwt_verify L (JWT_SECRET e) (now c) (the (logoutRefreshToken r)) of
        Inl je \<Rightarrow> (st, Inl (logoutJwtError je))
      | Inr d \<Rightarrow>
          if tokType d \<noteq> Some ''refresh'' then (st, Inl (Error ''Invalid token type''))
          else
            let st1 = (if isRedisEnabled e
                       then st\<lparr>redis := blacklistHeader e (now c) (logoutAuthorization r)
                                           (redis_del (redis st) (refreshKey (sub d)))\<rparr>
                       else st)
            in (st1, Inr \<lparr>pStatus = 200, pMessage = ''Logged out successfully''\<rparr>))"

section \<open>The guards (\<open>middleware/auth.js\<close>)\<close>

text \<open>The identity \<open>verifyToken\<close> attaches to the request as \<open>req.user\<close>. Its \<open>id\<close> is
  \<open>user._id\<close>, the ObjectId of the stored document.\<close>

record reqUser =
  ruId :: jsval
  ruEmail :: string
  ruRole :: string
  ruFirstName :: string
  ruLastName :: string
  ruPermissions :: "string list"

fun verifyJwtError :: "jwtError \<Rightarrow> error" where
  "verifyJwtError JsonWebTokenError = authenticationErrorHandler ''Invalid token''"
| "verifyJwtError TokenExpiredError = authenticationErrorHandler ''Token expired''"
| "verifyJwtError NotBeforeError = authenticationErrorHandler ''Token verification failed''"

definition verifyToken :: "libs \<Rightarrow> env \<Rightarrow> ctx \<Rightarrow> state \<Rightarrow> string option \<Rightarrow> error + reqUser" where
  "verifyToken L e c st authHeader =
     (if \<not> truthy authHeader \<or> \<not> startsWith (the authHeader) ''Bearer ''
      then Inl (authenticationErrorHandler ''Access token required'')
      else
        let token = substring 7 (the authHeader) in
        if isRedisEnabled e \<and> truthy (redis_get (now c) (redis st) (blacklistKey token))
        then Inl (authenticationErrorHandler ''Token has been revoked'')
        else case jwt_verify L (JWT_SECRET e) (now c) token of
          Inl je \<Rightarrow> Inl (verifyJwtError je)
        | Inr d \<Rightarrow>
            (case findUserById (users st) (sub d) of
               None \<Rightarrow> Inl (authenticationErrorHandler ''User no longer exists'')
             | Some u \<Rightarrow>
                 if \<not> isActive u
                 then Inl (authenticationErrorHandler ''User account is deactivated'')
                 else Inr \<lparr>ruId = JObjectId (user_id u), ruEmail = email u, ruRole = role u,
                        ruFirstName = firstName u, ruLastName = lastName u,
                        ruPermissions = permissions u\<rparr>))"

text \<open>
  \<open>requireOwnership(model, resourceIdField)\<close>. The model is a collection of resources;
  \<open>userId\<close>, \<open>createdBy\<close> and the \<open>userId\<close> of each team member are ObjectIds, read through
  \<open>toString()\<close>. The result is the error passed to \<open>next\<close>, or the resource attached to the
  request when the guard lets it through.
\<close>

record resource =
  resourceId :: objectId
  userId :: "objectId option"
  createdBy :: "objectId option"
  teamMembers :: "objectId list option"

definition findResourceById :: "resource list \<Rightarrow> string option \<Rightarrow> resource option" where
  "findResourceById rs i =
     (case i of None \<Rightarrow> None | Some j \<Rightarrow> find (\<lambda>r. resourceId r = j) rs)"

definition ownerField :: "resource \<Rightarrow> objectId option" where
  "ownerField r = (if userId r \<noteq> None then userId r else createdBy r)"

definition requireOwnership ::
  "resource list \<Rightarrow> string \<Rightarrow> reqUser option \<Rightarrow> (string \<times> string) list \<Rightarrow> error + resource" where
  "requireOwnership model resourceIdField ru params =
     (case ru of
        None \<Rightarrow> Inl (authenticationErrorHandler ''Authentication required. Please log in.'')
      | Some u \<Rightarrow>
          (case findResourceById model (map_of params resourceIdField) of
             None \<Rightarrow> Inl (notFoundErrorHandler ''Resource'')
           | Some r \<Rightarrow>
               if ruRole u = ''admin'' then Inr r
               else if (case ownerField r of None \<Rightarrow> False
                        | Some ownerId \<Rightarrow> strictEqString ownerId (ruId u))
               then Inr r
               else if (case teamMembers r of None \<Rightarrow> False
                        | Some ms \<Rightarrow> list_ex (\<lambda>m. strictEqString m (ruId u)) ms)
               then Inr r
               else Inl (authorizationErrorHandler
                           ''Access denied. You do not own this resource'')))"

section \<open>\<open>POST /api/auth/forgot-password\<close>\<close>

text \<open>\<open>sendPasswordResetEmail\<close> awaits the transport's \<open>sendMail\<close>; a rejection propagates to
  the caller.\<close>

definition sendPasswordResetEmail :: "ctx \<Rightarrow> error option" where
  "sendPasswordResetEmail c = map_option Error (sendMailError c)"

record forgotBody =
  forgotEmail :: string
  forgotErrors :: "string list"

definition forgotMessage :: string where
  "forgotMessage = ''If an account with that email exists, a password reset link has been sent''"

definition forgotPassword :: "libs \<Rightarrow> env \<Rightarrow> ctx \<Rightarrow> state \<Rightarrow> forgotBody \<Rightarrow> state \<times> (error + plainResponse)" where
  "forgotPassword L e c st b =
     (if forgotErrors b \<noteq> [] then (st, Inl (validationErrorHandler (forgotErrors b)))
      else case findUserByEmail (users st) (forgotEmail b) of
        None \<Rightarrow> (st, Inr \<lparr>pStatus = 200, pMessage = forgotMessage\<rparr>)
      | Some u \<Rightarrow>
          let resetToken = jwt_sign L (JWT_SECRET e) (now c) ''1h''
                 \<lparr>sub = user_id u, tokType = Some ''password_reset'', cEmail = None,
                  cRole = None, cPermissions = None\<rparr>;
              st1 = (if isRedisEnabled e
                     then st\<lparr>redis := redis_setEx (now c) (redis st) (passwordResetKey (user_id u))
                                         (Num 3600) (bcrypt_hash L (tokenSalt c) resetToken)\<rparr>
                     else st)
          in (case sendPasswordResetEmail c of
                Some err \<Rightarrow> (st1, Inl err)
              | None \<Rightarrow> (st1, Inr \<lparr>pStatus = 200, pMessage = forgotMessage\<rparr>)))"

section \<open>\<open>POST /api/auth/change-password\<close>\<close>

record changeBody =
  currentPassword :: string
  newPassword :: string
  changeErrors :: "string list"

text \<open>\<open>User.findById(req.user.id)\<close> casts the ObjectId it is given.\<close>

definition changePassword ::
  "libs \<Rightarrow> env \<Rightarrow> ctx \<Rightarrow> state \<Rightarrow> string option \<Rightarrow> changeBody \<Rightarrow> state \<times> (error + plainResponse)" where
  "changePassword L e c st authHeader b =
     (case verifyToken L e c st authHeader of
        Inl err \<Rightarrow> (st, Inl err)
      | Inr ru \<Rightarrow>
          if changeErrors b \<noteq> [] then (st, Inl (validationErrorHandler (changeErrors b)))
          else (case findUserById (users st) (toStringJs (ruId ru)) of
            None \<Rightarrow> (st, Inl (authenticationErrorHandler ''User not found''))
          | Some u0 \<Rightarrow>
              if \<not> comparePassword L u0 (currentPassword b)
              then (st, Inl (authenticationErrorHandler ''Current password is incorrect''))
              else if bcrypt_compare L (newPassword b) (passwordHash u0)
              then (st, Inl (validationErrorHandler
                      [''New password must be different from the current password'']))
              else
                let u = preSave L c [''passwordHash''] (u0\<lparr>passwordHash := newPassword b\<rparr>);
                    st1 = st\<lparr>users := saveUser (users st) u\<rparr>;
                    st2 = (if isRedisEnabled e
                           then st1\<lparr>redis := blacklistHeader e (now c) authHeader
                                     (redis_del (redis st1) (refreshKey (user_id u)))\<rparr>
                           else st1)
                in (st2, Inr \<lparr>pStatus = 200,
                      pMessage = ''Password changed successfully. Please log in again.''\<rparr>)))"

text \<open>The remaining validity of a token at time \<open>t\<close>: the seconds left until the expiry
  embedded in it, when it verifies.\<close>

definition remainingValidity :: "libs \<Rightarrow> env \<Rightarrow> nat \<Rightarrow> string \<Rightarrow> int option" where
  "remainingValidity L e t token =
     (case jwt_verify L (JWT_SECRET e) t token of
        Inl je \<Rightarrow> None
      | Inr d \<Rightarrow> Some (int (exp d) - int t))"

section \<open>A reference instance of the libraries\<close>

text \<open>
  A transparent stand-in for \<open>jsonwebtoken\<close> and \<open>bcryptjs\<close>, used to run the handlers on
  concrete requests. As in \<open>jsonwebtoken\<close>, a token is a function of the claims, the secret,
  the issue time in whole seconds (\<open>iat\<close>) and the time span: \<open>exp = iat + span\<close>, nothing
  random enters, and \<open>verify\<close> rejects a token once the clock has reached \<open>exp\<close>. A token
  is laid out as a JWT is: the header of an HS256 token first, then the claims in the order
  the code gives them (written in the clear where a JWT has their base64 text), then \<open>iat\<close>
  and \<open>exp\<close>, and the signature (here the secret itself) last. As in \<open>bcryptjs\<close>, a hash
  starts with the 29 characters of its salt and depends on the first 72 bytes of the input
  only: what follows them is never read, by \<open>hash\<close> or by \<open>compare\<close>.
\<close>

fun natToString :: "nat \<Rightarrow> string" where
  "natToString n =
     (if n < 10 then [''0123456789'' ! n]
      else natToString (n div 10) @ [''0123456789'' ! (n mod 10)])"

declare natToString.simps [simp del]

fun splitOn :: "char \<Rightarrow> string \<Rightarrow> string list" where
  "splitOn sep [] = [[]]"
| "splitOn sep (c # cs) =
     (if c = sep then [] # splitOn sep cs
      else (case splitOn sep cs of [] \<Rightarrow> [[c]] | f # fs \<Rightarrow> (c # f) # fs))"

text \<open>The time spans of the \<open>ms\<close> package that the configuration uses: a number followed by
  \<open>s\<close>, \<open>m\<close>, \<open>h\<close> or \<open>d\<close>; a bare number is a count of milliseconds.\<close>

definition ref_timespan :: "string \<Rightarrow> nat" where
  "ref_timespan s =
     (case parseDigits digitVal 10 s of
        None \<Rightarrow> 0
      | Some n \<Rightarrow>
          (let unit = dropWhile (\<lambda>c. digitVal c \<noteq> None) s in
           if unit = ''s'' then n
           else if unit = ''m'' then n * 60
           else if unit = ''h'' then n * 3600
           else if unit = ''d'' then n * 86400
           else if unit = [] then n div 1000
           else 0))"

fun encodeOpt :: "string option \<Rightarrow> string" where
  "encodeOpt None = ''-''"
| "encodeOpt (Some s) = CHR ''+'' # s"

fun decodeOpt :: "string \<Rightarrow> string option" where
  "decodeOpt [] = None"
| "decodeOpt (c # cs) = (if c = CHR ''+'' then Some cs else None)"

text \<open>The base64 text of \<open>{"alg":"HS256","typ":"JWT"}\<close>, with which every token starts.\<close>

definition ref_jwt_header :: string where
  "ref_jwt_header = ''eyJhbGciOiJIUzI1NiIsInR5cCI6IkpXVCJ9''"

definition ref_jwt_sign :: "string \<Rightarrow> nat \<Rightarrow> string \<Rightarrow> claims \<Rightarrow> string" where
  "ref_jwt_sign secret t span c =
     join ''|'' [ref_jwt_header, sub c, encodeOpt (tokType c), encodeOpt (cEmail c),
       encodeOpt (cRole c), encodeOpt (map_option (join '','') (cPermissions c)),
       natToString t, natToString (t + ref_timespan span), secret]"

definition ref_jwt_verify :: "string \<Rightarrow> nat \<Rightarrow> string \<Rightarrow> jwtError + decoded" where
  "ref_jwt_verify secret t token =
     (case splitOn CHR ''|'' token of
        [hr, sb, ty, em, ro, pe, ia, ex, sg] \<Rightarrow>
          (case (parseDigits digitVal 10 ia, parseDigits digitVal 10 ex) of
             (Some i, Some x) \<Rightarrow>
               if hr \<noteq> ref_jwt_header \<or> sg \<noteq> secret then Inl JsonWebTokenError
               else if x \<le> t then Inl TokenExpiredError
               else Inr \<lparr>sub = sb, tokType = decodeOpt ty, cEmail = decodeOpt em,
                      cRole = decodeOpt ro,
                      cPermissions = map_option (\<lambda>p. if p = [] then [] else splitOn CHR '','' p)
                                       (decodeOpt pe),
                      iat = i, exp = x\<rparr>
           | _ \<Rightarrow> Inl JsonWebTokenError)
      | _ \<Rightarrow> Inl JsonWebTokenError)"

definition ref_bcrypt_hash :: "string \<Rightarrow> string \<Rightarrow> string" where
  "ref_bcrypt_hash sa s = take 29 (sa @ replicate 29 CHR ''.'') @ take 72 s"

definition ref_bcrypt_compare :: "string \<Rightarrow> string \<Rightarrow> bool" where
  "ref_bcrypt_compare s h = (29 \<le> length h \<and> drop 29 h = take 72 s)"

definition ref_libs :: libs where
  "ref_libs = \<lparr>jwt_sign = ref_jwt_sign, jwt_verify = ref_jwt_verify,
     bcrypt_hash = ref_bcrypt_hash, bcrypt_compare = ref_bcrypt_compare\<rparr>"

text \<open>A deployment with Redis enabled and the JWT time spans left at their defaults, a
  store with one active student, and a request context at a given second.\<close>

definition env0 :: env where
  "env0 = \<lparr>REDIS_ENABLED = Some ''true'', JWT_SECRET = ''k'', JWT_EXPIRES_IN = None,
     JWT_REFRESH_EXPIRES_IN = None\<rparr>"

definition alice :: user where
  "alice = \<lparr>user_id = ''a1'', email = ''alice@example.com'',
     passwordHash = ref_bcrypt_hash ''salt'' ''Passw0rd!'', firstName = ''Alice'',
     lastName = ''Liddell'', role = ''student'', studentId = None, department = None,
     yearOfStudy = None, phone = None, isActive = True, emailVerified = False,
     lastLogin = None, permissions = [''read:projects'']\<rparr>"

definition state0 :: state where
  "state0 = \<lparr>users = [alice], approvals = [], redis = Map.empty\<rparr>"

definition at :: "nat \<Rightarrow> ctx" where
  "at t = \<lparr>now = t, salt = ''salt'', tokenSalt = ''pepper'', newObjectId = ''b2'',
     sendMailError = None\<rparr>"

definition bobBody :: "string option \<Rightarrow> registerBody" where
  "bobBody r = \<lparr>regEmail = ''Bob@example.com'', regPassword = ''Secr3t!pw'', regFirstName = ''Bob'',
     regLastName = ''Builder'', regRole = r, regStudentId = None, regDepartment = None,
     regYearOfStudy = None, regPhone = None, errorsBeforeRole = [], errorsAfterRole = [],
     schemaErrors = []\<rparr>"

text \<open>A registry in which Bob is pre-approved as team member only, and holds an inactive
  approval as mentor.\<close>

definition state1 :: state where
  "state1 = state0\<lparr>approvals :=
     [\<lparr>approvalEmail = ''bob@example.com'', allowedRoles = [''mentor''], approvalNote = None,
       approvalActive = False\<rparr>,
      \<lparr>approvalEmail = ''bob@example.com'', allowedRoles = [''team_member''],
       approvalNote = None, approvalActive = True\<rparr>]\<rparr>"


text \<open>Carol, a mentor whose \<open>_id\<close> is an ObjectId of 24 hex digits, the store that holds her
  alone, her login request, and her login at a given second on a given state.\<close>

definition carol :: user where
  "carol = \<lparr>user_id = ''64f0c2a1b2c3d4e5f6a7b8c9'', email = ''carol@example.com'',
     passwordHash = ref_bcrypt_hash ''salt'' ''C4rol!pass'', firstName = ''Carol'',
     lastName = ''Danvers'', role = ''mentor'', studentId = None, department = None,
     yearOfStudy = None, phone = None, isActive = True, emailVerified = True,
     lastLogin = None, permissions = [''read:projects'', ''write:projects'']\<rparr>"

definition state2 :: state where
  "state2 = \<lparr>users = [carol], approvals = [], redis = Map.empty\<rparr>"

definition carolLogin :: loginBody where
  "carolLogin = \<lparr>loginEmail = ''carol@example.com'', loginPassword = ''C4rol!pass'',
     desiredRole = None, loginErrors = []\<rparr>"

definition loginAt :: "nat \<Rightarrow> state \<Rightarrow> state \<times> (error + authResponse)" where
  "loginAt t st = login ref_libs env0 (at t) st carolLogin"

section \<open>Evaluation rules\<close>

lemmas js_defs = toLowerCase_def lowerChar_def startsWith_def
  substring_def parseDigits_def parseUnsigned_def parseIntString_def numberOf_def toDouble_def
  isWhite_def digitVal_def hexVal_def quoted_def

lemmas error_defs = validationErrorHandler_def authorizationErrorHandler_def
  authenticationErrorHandler_def conflictErrorHandler_def

lemmas store_defs = redis_get_def redis_setEx_def redis_del_def findUserByEmail_def
  findUserById_def findActiveApproval_def notPreApproved_def saveUser_def refreshKey_def
  blacklistKey_def isRedisEnabled_def refreshTtl_def blacklistTtl_def storeRefreshHash_def

lemmas user_defs = getDefaultPermissions_def rolePermissions_def preSavePassword_def
  preSavePermissions_def preSave_def generateAuthToken_def generateRefreshToken_def
  comparePassword_def

lemmas ref_defs = natToString.simps ref_timespan_def ref_jwt_header_def ref_jwt_sign_def
  ref_jwt_verify_def
  ref_bcrypt_hash_def ref_bcrypt_compare_def ref_libs_def env0_def alice_def state0_def
  at_def

lemma succeeded_projr: "succeeded r \<Longrightarrow> r = Inr (projr r)"
  by (cases r) simp_all

lemma succeeded_iff: "succeeded r \<longleftrightarrow> (\<exists>resp. r = Inr resp)"
  by (cases r) simp_all

lemmas login_eval = login_def loginValidation_def loginRoles_def loginNotice_def
  carol_def state2_def carolLogin_def loginAt_def Let_def js_defs error_defs store_defs user_defs ref_defs

lemmas refresh_eval = refresh_def storedHashCheck_def login_eval

section \<open>Lemmas about the handlers\<close>

subsection \<open>Registration\<close>

lemma registerRoles_not_admin: "r \<in> set registerRoles \<Longrightarrow> r \<noteq> ''admin'' \<and> r \<noteq> []"
  by (auto simp: registerRoles_def)

lemma roleErrors_empty_iff:
  "roleErrors r = [] \<longleftrightarrow> (case r of None \<Rightarrow> True | Some v \<Rightarrow> v \<in> set registerRoles)"
  by (simp add: roleErrors_def split: option.splits)

lemma preSave_role [simp]: "role (preSave L c ms u) = role u"
  by (simp add: preSave_def preSavePermissions_def preSavePassword_def)

lemma preSave_user_id [simp]: "user_id (preSave L c ms u) = user_id u"
  by (simp add: preSave_def preSavePermissions_def preSavePassword_def)

lemma newUser_role [simp]: "role (newUser c b a) = a"
  by (simp add: newUser_def)

lemma storeRefreshHash_users [simp]: "users (storeRefreshHash L e c i t st) = users st"
  by (simp add: storeRefreshHash_def)

lemma assignedRoleOf_cases:
  "assignedRoleOf st b = ''student'' \<or> Some (assignedRoleOf st b) = regRole b"
  by (simp add: assignedRoleOf_def requestedRoleOf_def split: option.splits)

lemma registerCreate_result:
  "snd (registerCreate L e c st b) = Inr resp \<Longrightarrow>
     users (fst (registerCreate L e c st b)) = users st @ [resUser resp]
     \<and> role (resUser resp) = assignedRoleOf st b"
  by (auto simp: registerCreate_def insertUser_def Let_def split: if_splits)

text \<open>What a successful registration returns and stores: the new user is appended, and its
  role is the requested one or \<open>student\<close>.\<close>

lemma register_success:
  assumes "snd (register L e c st b) = Inr resp"
  shows "registerValidation b = []"
    and "users (fst (register L e c st b)) = users st @ [resUser resp]"
    and "role (resUser resp) = ''student'' \<or> Some (role (resUser resp)) = regRole b"
proof -
  from assms have g: "registerValidation b = [] \<and> register L e c st b = registerCreate L e c st b"
    by (auto simp: register_def split: if_splits)
  then show "registerValidation b = []" by simp
  from g assms have r: "snd (registerCreate L e c st b) = Inr resp" by simp
  from registerCreate_result [OF r] g
  show "users (fst (register L e c st b)) = users st @ [resUser resp]" by simp
  from registerCreate_result [OF r] assignedRoleOf_cases [of st b]
  show "role (resUser resp) = ''student'' \<or> Some (role (resUser resp)) = regRole b" by simp
qed

lemmas register_scenario = state1_def bobBody_def

lemmas register_eval = register_def registerCreate_def requestedRoleOf_def roleAdjusted_def
  assignedRoleOf_def registerValidation_def roleErrors_def registerRoles_def newUser_def
  insertUser_def findUserByStudentId_def register_scenario
  Let_def js_defs error_defs store_defs user_defs ref_defs

subsection \<open>The authenticate guard\<close>

text \<open>The guard on a header of the form \<open>Bearer <token>\<close>.\<close>

lemma verifyToken_bearer:
  "verifyToken L e c st (Some (''Bearer '' @ token)) =
     (if isRedisEnabled e \<and> truthy (redis_get (now c) (redis st) (blacklistKey token))
      then Inl (ApiError 401 ''Token has been revoked'')
      else case jwt_verify L (JWT_SECRET e) (now c) token of
        Inl je \<Rightarrow> Inl (verifyJwtError je)
      | Inr d \<Rightarrow>
          (case findUserById (users st) (sub d) of
             None \<Rightarrow> Inl (ApiError 401 ''User no longer exists'')
           | Some u \<Rightarrow>
               if \<not> isActive u then Inl (ApiError 401 ''User account is deactivated'')
               else Inr \<lparr>ruId = JObjectId (user_id u), ruEmail = email u, ruRole = role u,
                      ruFirstName = firstName u, ruLastName = lastName u,
                      ruPermissions = permissions u\<rparr>))"
  by (simp add: verifyToken_def startsWith_def substring_def Let_def
      authenticationErrorHandler_def split: sum.splits option.splits)

lemma findUserById_saveUser:
  "findUserById us i = Some u \<Longrightarrow> user_id v = i \<Longrightarrow> findUserById (saveUser us v) i = Some v"
  by (induction us) (auto simp: findUserById_def saveUser_def)

text \<open>Every failure of the guard is a 401.\<close>

lemma verifyToken_error_401:
  "verifyToken L e c st h = Inl err \<Longrightarrow> \<exists>m. err = ApiError 401 m"
proof -
  have j: "\<exists>m. verifyJwtError je = ApiError 401 m" for je
    by (cases je) (simp_all add: authenticationErrorHandler_def)
  assume "verifyToken L e c st h = Inl err"
  then show ?thesis using j
    by (auto simp: verifyToken_def Let_def authenticationErrorHandler_def
        split: if_splits sum.splits option.splits)
qed

lemmas verify_eval = verifyToken_def Let_def js_defs error_defs store_defs user_defs ref_defs

subsection \<open>Logout\<close>

lemma logoutJwtError_failed [simp]: "\<not> succeeded (Inl (logoutJwtError je))"
  by simp

text \<open>The outcome of logout is decided by the refresh token alone.\<close>

lemma logout_outcome:
  "snd (logout L e c st r) =
     (if \<not> truthy (logoutRefreshToken r) then Inl (Error ''Refresh token is required'')
      else case jwt_verify L (JWT_SECRET e) (now c) (the (logoutRefreshToken r)) of
        Inl je \<Rightarrow> Inl (logoutJwtError je)
      | Inr d \<Rightarrow>
          if tokType d \<noteq> Some ''refresh'' then Inl (Error ''Invalid token type'')
          else Inr \<lparr>pStatus = 200, pMessage = ''Logged out successfully''\<rparr>)"
  by (simp add: logout_def Let_def split: sum.splits)

lemmas logout_eval = logout_def blacklistHeader_def Let_def js_defs error_defs store_defs
  user_defs ref_defs

subsection \<open>Refresh and the stored hash\<close>

lemma storeRefreshHash_slot:
  "isRedisEnabled e \<Longrightarrow>
     redis (storeRefreshHash L e c i token st) (refreshKey i) =
       Some (now c, refreshTtl e, bcrypt_hash L (tokenSalt c) token)"
  by (simp add: storeRefreshHash_def redis_setEx_def)

lemma storeRefreshHash_frame:
  "k \<noteq> refreshKey i \<Longrightarrow> redis (storeRefreshHash L e c i token st) k = redis st k"
  by (simp add: storeRefreshHash_def redis_setEx_def)

lemma storeRefreshHash_users_update [simp]:
  "redis (storeRefreshHash L e c i token (st\<lparr>users := us\<rparr>)) =
     redis (storeRefreshHash L e c i token st)"
  by (simp add: storeRefreshHash_def)

text \<open>Once the slot of a user holds the hash of \<open>new\<close>, the stored-hash check of a token
  for that user passes only if \<open>bcrypt.compare\<close> accepts the token against that hash.\<close>

lemma storedHashCheck_slot:
  assumes "redis st (refreshKey i) = Some (t0, ttl, bcrypt_hash L sa new)"
    and "storedHashCheck L t st i token = None"
  shows "bcrypt_compare L token (bcrypt_hash L sa new)"
  using assms by (auto simp: storedHashCheck_def redis_get_def split: if_splits)

lemma findUserById_id: "findUserById us i = Some u \<Longrightarrow> user_id u = i"
  by (auto simp: findUserById_def find_Some_iff)

text \<open>What a successful refresh did.\<close>

lemma refresh_success:
  assumes "snd (refresh L e c st rt) = Inr resp"
  shows "\<exists>d u. truthy rt \<and> jwt_verify L (JWT_SECRET e) (now c) (the rt) = Inr d
     \<and> tokType d = Some ''refresh''
     \<and> (isRedisEnabled e \<longrightarrow> storedHashCheck L (now c) st (sub d) (the rt) = None)
     \<and> findUserById (users st) (sub d) = Some u \<and> isActive u
     \<and> tAccessToken resp = generateAuthToken L e (now c) u
     \<and> tRefreshToken resp = generateRefreshToken L e (now c) u
     \<and> fst (refresh L e c st rt) = storeRefreshHash L e c (sub d) (tRefreshToken resp) st"
  using assms
  by (auto simp: refresh_def Let_def findUserById_id
      split: if_splits sum.splits option.splits)

text \<open>A refresh fails when the stored-hash check of its token fails.\<close>

lemma refresh_fails_on_hash:
  assumes "isRedisEnabled e"
    and "\<And>d. jwt_verify L (JWT_SECRET e) (now c) token = Inr d \<Longrightarrow>
            storedHashCheck L (now c) st (sub d) token \<noteq> None"
  shows "\<not> succeeded (snd (refresh L e c st (Some token)))"
  using assms
  by (cases "jwt_verify L (JWT_SECRET e) (now c) token")
     (auto simp: refresh_def Let_def split: if_splits)

text \<open>A successful registration or login writes the slot of its user and nothing else in
  the session store.\<close>

lemma register_redis:
  assumes "snd (register L e c st b) = Inr resp"
  shows "redis (fst (register L e c st b)) =
     redis (storeRefreshHash L e c (user_id (resUser resp)) (refreshToken resp) st)"
proof -
  from assms have "register L e c st b = registerCreate L e c st b"
    by (auto simp: register_def split: if_splits)
  with assms show ?thesis
    by (auto simp: registerCreate_def insertUser_def Let_def split: if_splits)
qed

lemma login_redis:
  assumes "snd (login L e c st b) = Inr resp"
  shows "redis (fst (login L e c st b)) =
     redis (storeRefreshHash L e c (user_id (resUser resp)) (refreshToken resp) st)"
  using assms
  by (auto simp: login_def Let_def split: if_splits option.splits)

section \<open>Default permissions on save\<close>

text \<open>
  C8. On a save with the role modified, the role's default permissions are assigned exactly
  when the permission list is empty at that moment, and a non-empty list is kept as it is
  (also through both hooks run by \<open>save\<close>); on any save, whatever fields it modifies, a
  non-empty permission list is left as it is by the hook and by \<open>save\<close>; the default list is
  a function of the role alone, and each of the six roles is a key of the table, mapped to
  its enumerated row.
\<close>

theorem C8_default_permissions_iff_empty:
  "(''role'' \<in> set modified \<longrightarrow>
       preSavePermissions modified u =
         (if permissions u = [] then u\<lparr>permissions := getDefaultPermissions u\<rparr> else u)
       \<and> permissions (preSave L c modified u) =
         (if permissions u = [] then getDefaultPermissions u else permissions u))
   \<and> (permissions u \<noteq> [] \<longrightarrow>
       preSavePermissions anyModified u = u
       \<and> permissions (preSave L c anyModified u) = permissions u)
   \<and> getDefaultPermissions u = getDefaultPermissions (v\<lparr>role := role u\<rparr>)
   \<and> map fst rolePermissions =
       [''student'', ''team_member'', ''mentor'', ''researcher'', ''community'', ''admin'']
   \<and> map (\<lambda>r. getDefaultPermissions (u\<lparr>role := r\<rparr>)) (map fst rolePermissions) =
       map snd rolePermissions"
  by (simp add: preSave_def preSavePermissions_def preSavePassword_def
      getDefaultPermissions_def rolePermissions_def)

text \<open>Alice saved with her role modified, once with an empty permission list and once with
  her own; and Alice, with her own permissions, saved by a login (\<open>lastLogin\<close>) and by a
  password change (\<open>passwordHash\<close>).\<close>

theorem C8_default_permissions_witness:
  "''role'' \<in> set [''role'', ''email'']
   \<and> permissions (preSavePermissions [''role'', ''email''] (alice\<lparr>permissions := []\<rparr>)) =
       [''read:projects'', ''read:workshops'', ''read:events'', ''read:inventory'',
        ''read:news'', ''read:media'']
   \<and> preSavePermissions [''role'', ''email''] alice = alice
   \<and> permissions alice \<noteq> []
   \<and> preSavePermissions [''lastLogin''] alice = alice
   \<and> permissions (preSave ref_libs (at 2000) [''lastLogin''] alice) = [''read:projects'']
   \<and> permissions (preSave ref_libs (at 2000) [''passwordHash''] alice) = [''read:projects'']"
proof -
  have h: "''role'' \<in> set [''role'', ''email'']" by simp
  have p: "permissions alice = [''read:projects'']" by (simp add: alice_def)
  have a: "permissions (preSavePermissions [''role'', ''email''] (alice\<lparr>permissions := []\<rparr>)) =
       [''read:projects'', ''read:workshops'', ''read:events'', ''read:inventory'',
        ''read:news'', ''read:media'']"
    using C8_default_permissions_iff_empty
      [of "[''role'', ''email'']" "alice\<lparr>permissions := []\<rparr>"] h
    by (simp add: alice_def getDefaultPermissions_def rolePermissions_def)
  have b: "preSavePermissions [''role'', ''email''] alice = alice"
    using C8_default_permissions_iff_empty [of "[''role'', ''email'']" alice] h p by simp
  have c: "preSavePermissions [''lastLogin''] alice = alice
      \<and> permissions (preSave ref_libs (at 2000) [''lastLogin''] alice) = [''read:projects'']"
    using C8_default_permissions_iff_empty
      [of _ alice _ _ "[''lastLogin'']", where L = ref_libs and c = "at 2000"] p
    by simp
  have d: "permissions (preSave ref_libs (at 2000) [''passwordHash''] alice) = [''read:projects'']"
    using C8_default_permissions_iff_empty
      [of _ alice _ _ "[''passwordHash'']", where L = ref_libs and c = "at 2000"] p
    by simp
  from h p a b c d show ?thesis by simp
qed

section \<open>Registration\<close>

text \<open>
  C10. A registration request whose role is \<open>admin\<close> is rejected by the validation step with
  a 400 validation error: nothing is stored and the registry of approvals plays no part in
  the answer. No successful registration, whatever the approvals on file, creates a user
  whose role is \<open>admin\<close>.
\<close>

theorem C10_admin_never_self_registered:
  "(regRole b = Some ''admin'' \<longrightarrow>
      register L e c st b = (st, Inl (validationErrorHandler (registerValidation b)))
      \<and> statusCode (validationErrorHandler (registerValidation b)) = 400
      \<and> ''Invalid role specified'' \<in> set (registerValidation b)
      \<and> snd (register L e c (st\<lparr>approvals := as\<rparr>) b) = snd (register L e c st b))
   \<and> (snd (register L e c st b) = Inr resp \<longrightarrow>
      role (resUser resp) \<noteq> ''admin''
      \<and> users (fst (register L e c st b)) = users st @ [resUser resp])"
proof (intro conjI impI)
  assume a: "regRole b = Some ''admin''"
  then have v: "registerValidation b \<noteq> []"
    by (simp add: registerValidation_def roleErrors_def registerRoles_def)
  show "register L e c st b = (st, Inl (validationErrorHandler (registerValidation b)))"
    using v by (simp add: register_def)
  show "statusCode (validationErrorHandler (registerValidation b)) = 400"
    by (simp add: validationErrorHandler_def)
  show "''Invalid role specified'' \<in> set (registerValidation b)"
    using a by (simp add: registerValidation_def roleErrors_def registerRoles_def)
  show "snd (register L e c (st\<lparr>approvals := as\<rparr>) b) = snd (register L e c st b)"
    using v by (simp add: register_def)
next
  assume s: "snd (register L e c st b) = Inr resp"
  from register_success(1) [OF s] have "roleErrors (regRole b) = []"
    by (simp add: registerValidation_def)
  then have ok: "case regRole b of None \<Rightarrow> True | Some v \<Rightarrow> v \<in> set registerRoles"
    by (simp add: roleErrors_empty_iff)
  from register_success(3) [OF s] show "role (resUser resp) \<noteq> ''admin''"
  proof
    assume "role (resUser resp) = ''student''"
    then show ?thesis by simp
  next
    assume "Some (role (resUser resp)) = regRole b"
    then have "regRole b = Some (role (resUser resp))" by simp
    with ok have "role (resUser resp) \<in> set registerRoles" by simp
    then show ?thesis using registerRoles_not_admin by blast
  qed
  from register_success(2) [OF s]
  show "users (fst (register L e c st b)) = users st @ [resUser resp]" .
qed

theorem C10_admin_never_self_registered_witness:
  "regRole (bobBody (Some ''admin'')) = Some ''admin''
   \<and> register ref_libs env0 (at 5) state1 (bobBody (Some ''admin'')) =
       (state1, Inl (ApiError 400 ''Invalid role specified''))
   \<and> succeeded (snd (register ref_libs env0 (at 5) state1 (bobBody (Some ''team_member''))))
   \<and> role (resUser (projr (snd (register ref_libs env0 (at 5) state1
        (bobBody (Some ''team_member'')))))) \<noteq> ''admin''"
proof -
  have a: "regRole (bobBody (Some ''admin'')) = Some ''admin''"
    by (simp add: bobBody_def)
  have v: "validationErrorHandler (registerValidation (bobBody (Some ''admin''))) =
      ApiError 400 ''Invalid role specified''"
    by (simp add: bobBody_def registerValidation_def roleErrors_def registerRoles_def
        validationErrorHandler_def)
  have s: "succeeded (snd (register ref_libs env0 (at 5) state1 (bobBody (Some ''team_member''))))"
    by (simp add: register_eval)
  from C10_admin_never_self_registered
    [where b = "bobBody (Some ''admin'')" and L = ref_libs and e = env0 and c = "at 5"
      and st = state1] a v
  have 1: "register ref_libs env0 (at 5) state1 (bobBody (Some ''admin'')) =
       (state1, Inl (ApiError 400 ''Invalid role specified''))"
    by simp
  from C10_admin_never_self_registered
    [where b = "bobBody (Some ''team_member'')" and L = ref_libs and e = env0 and c = "at 5"
      and st = state1
      and resp = "projr (snd (register ref_libs env0 (at 5) state1
        (bobBody (Some ''team_member''))))"] succeeded_projr [OF s]
  have 2: "role (resUser (projr (snd (register ref_libs env0 (at 5) state1
        (bobBody (Some ''team_member'')))))) \<noteq> ''admin''"
    by blast
  from a 1 s 2 show ?thesis by blast
qed

lemma notPreApproved_uncovered:
  assumes "\<forall>a\<in>set as. approvalEmail a = e \<and> approvalActive a \<longrightarrow> r \<notin> set (allowedRoles a)"
  shows "notPreApproved (findActiveApproval as e) r"
proof (cases "findActiveApproval as e")
  case None
  then show ?thesis by (simp add: notPreApproved_def)
next
  case (Some a)
  then have "a \<in> set as \<and> approvalEmail a = e \<and> approvalActive a"
    by (auto simp: findActiveApproval_def find_Some_iff)
  with assms have "r \<notin> set (allowedRoles a)" by blast
  with Some show ?thesis by (simp add: notPreApproved_def)
qed

text \<open>
  C1, as the code has it. A registration request that passes validation (of the request
  and of the schema) and collides with no stored e-mail or student id, and asks for a role
  other than \<open>student\<close> that no active approval of the lower-cased e-mail allows, succeeds
  with status 201: the user is stored with role \<open>student\<close>, and the response carries the
  notice naming the requested and the assigned role.
\<close>

theorem C1_unapproved_role_downgraded:
  assumes "registerValidation b = []" and "schemaErrors b = []"
    and "findUserByEmail (users st) (regEmail b) = None"
    and "regStudentId b = None \<or>
         findUserByStudentId (users st) (the (regStudentId b)) = None"
    and "regRole b = Some r" and "r \<noteq> ''student''"
    and "\<forall>a\<in>set (approvals st).
           approvalEmail a = toLowerCase (regEmail b) \<and> approvalActive a
             \<longrightarrow> r \<notin> set (allowedRoles a)"
  shows "\<exists>resp. snd (register L e c st b) = Inr resp
     \<and> status resp = 201
     \<and> role (resUser resp) = ''student''
     \<and> users (fst (register L e c st b)) = users st @ [resUser resp]
     \<and> roleNoticeField resp = Some \<lparr>requestedRole = r, assignedRole = ''student'',
          noticeMessage = ''Your requested role is not pre-approved. You have been registered as a student. An admin can update your role later.''\<rparr>
     \<and> message resp = ''User registered successfully. Requested role '' @ quoted r @
          '' is not pre-approved; assigned '' @ quoted ''student'' @ ''.''"
proof -
  from assms(1,5) have "r \<in> set registerRoles"
    by (simp add: registerValidation_def roleErrors_def split: if_splits)
  then have ne: "r \<noteq> []" using registerRoles_not_admin by blast
  have rq: "requestedRoleOf b = r" using assms(5) by (simp add: requestedRoleOf_def)
  have adj: "roleAdjusted st b"
    using notPreApproved_uncovered [OF assms(7)] assms(6) ne rq
    by (simp add: roleAdjusted_def)
  then have asg: "assignedRoleOf st b = ''student''" by (simp add: assignedRoleOf_def)
  have reg: "register L e c st b = registerCreate L e c st b"
    using assms(1,3,4) by (auto simp: register_def findUserByStudentId_def)
  let ?u = "preSave L c [''email'', ''passwordHash'', ''firstName'', ''lastName'', ''role'']
              (newUser c b (assignedRoleOf st b))"
  have em: "email ?u = toLowerCase (regEmail b)" and sid: "studentId ?u = regStudentId b"
    by (simp_all add: preSave_def preSavePermissions_def preSavePassword_def newUser_def)
  have ins: "insertUser (users st) ?u = Inr (users st @ [?u])"
    using assms(3,4) em sid
    by (cases "regStudentId b")
       (auto simp: insertUser_def findUserByEmail_def findUserByStudentId_def)
  show ?thesis
    unfolding reg using adj asg rq ins assms(2)
    by (simp add: registerCreate_def Let_def)
qed

theorem C1_unapproved_role_downgraded_witness:
  "registerValidation (bobBody (Some ''mentor'')) = []
   \<and> findUserByEmail (users state1) (regEmail (bobBody (Some ''mentor''))) = None
   \<and> regStudentId (bobBody (Some ''mentor'')) = None
   \<and> map allowedRoles (filter approvalActive (approvals state1)) = [[''team_member'']]
   \<and> (\<exists>resp. snd (register ref_libs env0 (at 5) state1 (bobBody (Some ''mentor''))) = Inr resp
         \<and> role (resUser resp) = ''student''
         \<and> map_option requestedRole (roleNoticeField resp) = Some ''mentor''
         \<and> map_option assignedRole (roleNoticeField resp) = Some ''student'')"
proof -
  have h1: "registerValidation (bobBody (Some ''mentor'')) = []"
    by (simp add: bobBody_def registerValidation_def roleErrors_def registerRoles_def)
  have h2: "findUserByEmail (users state1) (regEmail (bobBody (Some ''mentor''))) = None"
    by (simp add: js_defs store_defs ref_defs register_scenario)
  have h3: "regStudentId (bobBody (Some ''mentor'')) = None"
    by (simp add: bobBody_def)
  have h0: "schemaErrors (bobBody (Some ''mentor'')) = []"
    by (simp add: bobBody_def)
  have h4: "regRole (bobBody (Some ''mentor'')) = Some ''mentor''"
    by (simp add: bobBody_def)
  have h5: "''mentor'' \<noteq> ''student''" by simp
  have h6: "\<forall>a\<in>set (approvals state1).
         approvalEmail a = toLowerCase (regEmail (bobBody (Some ''mentor''))) \<and> approvalActive a
           \<longrightarrow> ''mentor'' \<notin> set (allowedRoles a)"
    by (simp add: js_defs ref_defs register_scenario)
  from C1_unapproved_role_downgraded [OF h1 h0 h2 disjI1 [OF h3] h4 h5 h6, of ref_libs env0 "at 5"]
  obtain resp where "snd (register ref_libs env0 (at 5) state1 (bobBody (Some ''mentor''))) = Inr resp"
    and "role (resUser resp) = ''student''"
    and "roleNoticeField resp = Some \<lparr>requestedRole = ''mentor'', assignedRole = ''student'',
          noticeMessage = ''Your requested role is not pre-approved. You have been registered as a student. An admin can update your role later.''\<rparr>"
    by blast
  then have "\<exists>resp. snd (register ref_libs env0 (at 5) state1 (bobBody (Some ''mentor''))) = Inr resp
         \<and> role (resUser resp) = ''student''
         \<and> map_option requestedRole (roleNoticeField resp) = Some ''mentor''
         \<and> map_option assignedRole (roleNoticeField resp) = Some ''student''"
    by simp
  moreover have "map allowedRoles (filter approvalActive (approvals state1)) = [[''team_member'']]"
    by (simp add: ref_defs register_scenario)
  ultimately show ?thesis using h1 h2 h3 by blast
qed

text \<open>
  The statement without the provisos fails: a request for the role \<open>admin\<close>, with no
  approval on file, is rejected by the validation step, and a request for \<open>mentor\<close> under an
  e-mail that is already registered is rejected as a conflict.
\<close>

theorem C1_counterexample:
  "regRole (bobBody (Some ''admin'')) = Some ''admin''
   \<and> approvals state0 = []
   \<and> snd (register ref_libs env0 (at 5) state0 (bobBody (Some ''admin''))) =
       Inl (ApiError 400 ''Invalid role specified'')
   \<and> snd (register ref_libs env0 (at 5) state0
        ((bobBody (Some ''mentor''))\<lparr>regEmail := ''alice@example.com''\<rparr>)) =
       Inl (ApiError 409 ''User with this email already exists'')"
  by (simp add: register_eval)

section \<open>The authenticate guard\<close>

text \<open>
  C2. Take a request whose bearer token verifies (it is signed and unexpired) and whose
  subject is a stored user. If that user's \<open>isActive\<close> flag in the store is false, the guard
  fails with a 401. The flag is read from the store on the request: with the same token and
  claims, the guard lets an active user through (unless the token is black-listed), and
  once the stored user is deactivated a later request with that token fails with a 401.
\<close>

theorem C2_deactivated_user_rejected:
  assumes "jwt_verify L (JWT_SECRET e) (now c) token = Inr d"
    and "findUserById (users st) (sub d) = Some u"
  shows "(\<not> isActive u \<longrightarrow>
            (\<exists>m. verifyToken L e c st (Some (''Bearer '' @ token)) = Inl (ApiError 401 m)))
    \<and> (\<not> isActive u \<and> \<not> (isRedisEnabled e \<and>
            truthy (redis_get (now c) (redis st) (blacklistKey token))) \<longrightarrow>
          verifyToken L e c st (Some (''Bearer '' @ token)) =
            Inl (ApiError 401 ''User account is deactivated''))
    \<and> (isActive u \<and> \<not> (isRedisEnabled e \<and>
            truthy (redis_get (now c) (redis st) (blacklistKey token))) \<longrightarrow>
          verifyToken L e c st (Some (''Bearer '' @ token)) =
            Inr \<lparr>ruId = JObjectId (user_id u), ruEmail = email u, ruRole = role u,
                 ruFirstName = firstName u, ruLastName = lastName u,
                 ruPermissions = permissions u\<rparr>)
    \<and> (jwt_verify L (JWT_SECRET e) (now c') token = Inr d \<longrightarrow>
          (\<exists>m. verifyToken L e c' (st\<lparr>users := saveUser (users st) (u\<lparr>isActive := False\<rparr>)\<rparr>)
                  (Some (''Bearer '' @ token)) = Inl (ApiError 401 m)))"
proof (intro conjI impI)
  assume "\<not> isActive u"
  with assms show "\<exists>m. verifyToken L e c st (Some (''Bearer '' @ token)) = Inl (ApiError 401 m)"
    unfolding verifyToken_bearer by simp
next
  assume "\<not> isActive u \<and> \<not> (isRedisEnabled e \<and>
            truthy (redis_get (now c) (redis st) (blacklistKey token)))"
  with assms show "verifyToken L e c st (Some (''Bearer '' @ token)) =
            Inl (ApiError 401 ''User account is deactivated'')"
    unfolding verifyToken_bearer by auto
next
  assume "isActive u \<and> \<not> (isRedisEnabled e \<and>
            truthy (redis_get (now c) (redis st) (blacklistKey token)))"
  with assms show "verifyToken L e c st (Some (''Bearer '' @ token)) =
            Inr \<lparr>ruId = JObjectId (user_id u), ruEmail = email u, ruRole = role u,
                 ruFirstName = firstName u, ruLastName = lastName u,
                 ruPermissions = permissions u\<rparr>"
    unfolding verifyToken_bearer by auto
next
  assume v: "jwt_verify L (JWT_SECRET e) (now c') token = Inr d"
  have i: "user_id u = sub d"
    using assms(2) by (auto simp: findUserById_def find_Some_iff)
  have f: "findUserById (saveUser (users st) (u\<lparr>isActive := False\<rparr>)) (sub d) =
      Some (u\<lparr>isActive := False\<rparr>)"
    using findUserById_saveUser [OF assms(2), of "u\<lparr>isActive := False\<rparr>"] i by simp
  from v f
  show "\<exists>m. verifyToken L e c' (st\<lparr>users := saveUser (users st) (u\<lparr>isActive := False\<rparr>)\<rparr>)
                  (Some (''Bearer '' @ token)) = Inl (ApiError 401 m)"
    unfolding verifyToken_bearer by simp
qed

theorem C2_deactivated_user_rejected_witness:
  "ref_jwt_verify ''k'' 2000 (generateAuthToken ref_libs env0 1000 alice) =
     Inr \<lparr>sub = ''a1'', tokType = None, cEmail = Some ''alice@example.com'',
          cRole = Some ''student'', cPermissions = Some [''read:projects''],
          iat = 1000, exp = 87400\<rparr>
   \<and> findUserById [alice\<lparr>isActive := False\<rparr>] ''a1'' = Some (alice\<lparr>isActive := False\<rparr>)
   \<and> \<not> isActive (alice\<lparr>isActive := False\<rparr>)
   \<and> verifyToken ref_libs env0 (at 2000) (state0\<lparr>users := [alice\<lparr>isActive := False\<rparr>]\<rparr>)
        (Some (''Bearer '' @ generateAuthToken ref_libs env0 1000 alice)) =
       Inl (ApiError 401 ''User account is deactivated'')"
proof -
  have h1: "jwt_verify ref_libs (JWT_SECRET env0) (now (at 2000))
       (generateAuthToken ref_libs env0 1000 alice) =
     Inr \<lparr>sub = ''a1'', tokType = None, cEmail = Some ''alice@example.com'',
          cRole = Some ''student'', cPermissions = Some [''read:projects''],
          iat = 1000, exp = 87400\<rparr>"
    by (simp add: verify_eval)
  have h2: "findUserById (users (state0\<lparr>users := [alice\<lparr>isActive := False\<rparr>]\<rparr>))
       (sub \<lparr>sub = ''a1'', tokType = None, cEmail = Some ''alice@example.com'',
          cRole = Some ''student'', cPermissions = Some [''read:projects''],
          iat = 1000, exp = 87400\<rparr>) = Some (alice\<lparr>isActive := False\<rparr>)"
    by (simp add: verify_eval)
  have h3: "\<not> isActive (alice\<lparr>isActive := False\<rparr>)" by simp
  have h4: "\<not> (isRedisEnabled env0 \<and> truthy (redis_get (now (at 2000))
       (redis (state0\<lparr>users := [alice\<lparr>isActive := False\<rparr>]\<rparr>))
       (blacklistKey (generateAuthToken ref_libs env0 1000 alice))))"
    by (simp add: verify_eval)
  from C2_deactivated_user_rejected [OF h1 h2] h3 h4
  have "verifyToken ref_libs env0 (at 2000) (state0\<lparr>users := [alice\<lparr>isActive := False\<rparr>]\<rparr>)
        (Some (''Bearer '' @ generateAuthToken ref_libs env0 1000 alice)) =
       Inl (ApiError 401 ''User account is deactivated'')"
    by blast
  moreover have "ref_jwt_verify ''k'' 2000 (generateAuthToken ref_libs env0 1000 alice) =
     Inr \<lparr>sub = ''a1'', tokType = None, cEmail = Some ''alice@example.com'',
          cRole = Some ''student'', cPermissions = Some [''read:projects''],
          iat = 1000, exp = 87400\<rparr>"
    using h1 by (simp add: ref_libs_def env0_def at_def)
  moreover have "findUserById [alice\<lparr>isActive := False\<rparr>] ''a1'' = Some (alice\<lparr>isActive := False\<rparr>)"
    using h2 by simp
  ultimately show ?thesis using h3 by blast
qed

section \<open>Logout\<close>

text \<open>
  C5, as the code has it. A logout request succeeds exactly when it carries a non-empty
  refresh token that verifies (signed, unexpired) and has the type \<open>refresh\<close>; every other
  request fails with an error. When it succeeds it answers 200 whatever the
  \<open>Authorization\<close> header and the stored state are, so the same request repeated on the
  state the first logout left succeeds again as long as the token still verifies.
\<close>

theorem C5_logout_succeeds_iff_valid_refresh_token:
  "(succeeded (snd (logout L e c st r)) \<longleftrightarrow>
      truthy (logoutRefreshToken r) \<and>
      (\<exists>d. jwt_verify L (JWT_SECRET e) (now c) (the (logoutRefreshToken r)) = Inr d
           \<and> tokType d = Some ''refresh''))
   \<and> (succeeded (snd (logout L e c st r)) \<longrightarrow>
        snd (logout L e c st r) = Inr \<lparr>pStatus = 200, pMessage = ''Logged out successfully''\<rparr>)
   \<and> snd (logout L e c st (r\<lparr>logoutAuthorization := h\<rparr>)) = snd (logout L e c st r)
   \<and> snd (logout L e c (fst (logout L e c st r)) r) = snd (logout L e c st r)
   \<and> (truthy (logoutRefreshToken r) \<and>
        (\<exists>d. jwt_verify L (JWT_SECRET e) (now c') (the (logoutRefreshToken r)) = Inr d
           \<and> tokType d = Some ''refresh'') \<longrightarrow>
        succeeded (snd (logout L e c' (fst (logout L e c st r)) r)))"
  unfolding logout_outcome
  by (auto split: sum.splits)

theorem C5_logout_succeeds_witness:
  "truthy (Some (generateRefreshToken ref_libs env0 1000 alice))
   \<and> succeeded (snd (logout ref_libs env0 (at 2000) state0
        \<lparr>logoutRefreshToken = Some (generateRefreshToken ref_libs env0 1000 alice),
         logoutAuthorization = None\<rparr>))
   \<and> succeeded (snd (logout ref_libs env0 (at 3000)
        (fst (logout ref_libs env0 (at 2000) state0
          \<lparr>logoutRefreshToken = Some (generateRefreshToken ref_libs env0 1000 alice),
           logoutAuthorization = None\<rparr>))
        \<lparr>logoutRefreshToken = Some (generateRefreshToken ref_libs env0 1000 alice),
         logoutAuthorization = None\<rparr>))"
proof -
  let ?r = "\<lparr>logoutRefreshToken = Some (generateRefreshToken ref_libs env0 1000 alice),
         logoutAuthorization = None\<rparr>"
  have t: "truthy (logoutRefreshToken ?r)"
    by (simp add: user_defs ref_defs join.simps)
  have v1: "\<exists>d. jwt_verify ref_libs (JWT_SECRET env0) (now (at 2000)) (the (logoutRefreshToken ?r)) = Inr d
           \<and> tokType d = Some ''refresh''"
    by (simp add: js_defs user_defs ref_defs)
  have v2: "\<exists>d. jwt_verify ref_libs (JWT_SECRET env0) (now (at 3000)) (the (logoutRefreshToken ?r)) = Inr d
           \<and> tokType d = Some ''refresh''"
    by (simp add: js_defs user_defs ref_defs)
  from C5_logout_succeeds_iff_valid_refresh_token
    [where L = ref_libs and e = env0 and c = "at 2000" and st = state0 and r = ?r
      and c' = "at 3000"] t v1 v2
  have "succeeded (snd (logout ref_libs env0 (at 2000) state0 ?r))"
    and "succeeded (snd (logout ref_libs env0 (at 3000)
        (fst (logout ref_libs env0 (at 2000) state0 ?r)) ?r))"
    by blast+
  with t show ?thesis by simp
qed

text \<open>
  The statement that logout never fails does not hold: without a refresh token, with a
  string that is no token, and with an expired refresh token, logout throws.
\<close>

theorem C5_counterexample:
  "snd (logout ref_libs env0 (at 2000) state0
      \<lparr>logoutRefreshToken = None, logoutAuthorization = None\<rparr>) =
     Inl (Error ''Refresh token is required'')
   \<and> snd (logout ref_libs env0 (at 2000) state0
      \<lparr>logoutRefreshToken = Some ''garbage'', logoutAuthorization = None\<rparr>) =
     Inl (Error ''Invalid refresh token'')
   \<and> snd (logout ref_libs env0 (at 700000) state0
      \<lparr>logoutRefreshToken = Some (generateRefreshToken ref_libs env0 1000 alice),
       logoutAuthorization = None\<rparr>) =
     Inl (Error ''Refresh token expired'')"
  by (simp add: logout_eval)

section \<open>The time to live of a black-listed access token\<close>

lemma redis_ttl_setEx [simp]:
  "redis_ttl t (redis_setEx t store k (Num n) v) k = Some (Num n)"
  "redis_ttl t (redis_setEx t store k PosInfinity v) k = Some PosInfinity"
  "redis_ttl t (redis_setEx t store k NegInfinity v) k = Some NegInfinity"
  "redis_ttl t (redis_setEx t store k NaN v) k = Some NaN"
  by (simp_all add: redis_ttl_def redis_setEx_def)

lemma redis_ttl_blacklistHeader:
  "truthy h \<Longrightarrow>
     redis_ttl t (blacklistHeader e t h store) (blacklistKey (substring 7 (the h))) =
       Some (blacklistTtl e)"
  by (cases "blacklistTtl e") (simp_all add: blacklistHeader_def)

lemma logout_redis:
  "succeeded (snd (logout L e c st r)) \<Longrightarrow> isRedisEnabled e \<Longrightarrow>
     \<exists>store. redis (fst (logout L e c st r)) =
       blacklistHeader e (now c) (logoutAuthorization r) store"
  by (auto simp: logout_def Let_def split: if_splits sum.splits)

lemma changePassword_redis:
  "succeeded (snd (changePassword L e c st h b)) \<Longrightarrow> isRedisEnabled e \<Longrightarrow>
     \<exists>store. redis (fst (changePassword L e c st h b)) = blacklistHeader e (now c) h store"
  by (auto simp: changePassword_def Let_def split: if_splits sum.splits option.splits)

lemma blacklistTtl_unset: "JWT_EXPIRES_IN e = None \<Longrightarrow> blacklistTtl e = Num 86400"
  by (simp add: blacklistTtl_def)

text \<open>
  C4, as the code has it. With the session store enabled there is one duration, set by the
  configuration alone (86400 seconds when \<open>JWT_EXPIRES_IN\<close> is unset), such that every
  logout and every password change that succeeds and carries an \<open>Authorization\<close> header
  writes the text after the first seven characters of the header into the black-list with
  that duration as its time to live: the same for every token and every moment, not the
  time the token has left.
\<close>

theorem C4_blacklist_ttl_is_configured_duration:
  assumes "isRedisEnabled e"
  shows "\<exists>d.
      (\<forall>L c st rt h.
          truthy h
          \<and> succeeded (snd (logout L e c st \<lparr>logoutRefreshToken = rt, logoutAuthorization = h\<rparr>))
          \<longrightarrow> redis_ttl (now c)
                (redis (fst (logout L e c st
                   \<lparr>logoutRefreshToken = rt, logoutAuthorization = h\<rparr>)))
                (blacklistKey (substring 7 (the h))) = Some d)
    \<and> (\<forall>L c st h b.
          truthy h \<and> succeeded (snd (changePassword L e c st h b))
          \<longrightarrow> redis_ttl (now c) (redis (fst (changePassword L e c st h b)))
                (blacklistKey (substring 7 (the h))) = Some d)
    \<and> (JWT_EXPIRES_IN e = None \<longrightarrow> d = Num 86400)"
proof (intro exI [of _ "blacklistTtl e"] conjI allI impI)
  fix L c st rt h
  assume a: "truthy h
    \<and> succeeded (snd (logout L e c st \<lparr>logoutRefreshToken = rt, logoutAuthorization = h\<rparr>))"
  from logout_redis [OF conjunct2 [OF a] assms]
  obtain store where
    "redis (fst (logout L e c st \<lparr>logoutRefreshToken = rt, logoutAuthorization = h\<rparr>)) =
       blacklistHeader e (now c) h store"
    by auto
  then show "redis_ttl (now c)
      (redis (fst (logout L e c st \<lparr>logoutRefreshToken = rt, logoutAuthorization = h\<rparr>)))
      (blacklistKey (substring 7 (the h))) = Some (blacklistTtl e)"
    by (simp add: redis_ttl_blacklistHeader [OF conjunct1 [OF a]])
next
  fix L c st h b
  assume a: "truthy h \<and> succeeded (snd (changePassword L e c st h b))"
  from changePassword_redis [OF conjunct2 [OF a] assms]
  obtain store where
    "redis (fst (changePassword L e c st h b)) = blacklistHeader e (now c) h store"
    by auto
  then show "redis_ttl (now c) (redis (fst (changePassword L e c st h b)))
      (blacklistKey (substring 7 (the h))) = Some (blacklistTtl e)"
    by (simp add: redis_ttl_blacklistHeader [OF conjunct1 [OF a]])
next
  assume "JWT_EXPIRES_IN e = None"
  then show "blacklistTtl e = Num 86400" by (rule blacklistTtl_unset)
qed

text \<open>Alice's tokens issued at second 1000, her logout at second 2000, and her password
  change at second 2000, with \<open>JWT_EXPIRES_IN\<close> unset.\<close>

lemmas change_eval = changePassword_def verifyToken_def blacklistHeader_def Let_def js_defs
  error_defs store_defs user_defs ref_defs

theorem C4_blacklist_ttl_witness:
  "isRedisEnabled env0
   \<and> JWT_EXPIRES_IN env0 = None
   \<and> truthy (Some (''Bearer '' @ generateAuthToken ref_libs env0 1000 alice))
   \<and> succeeded (snd (logout ref_libs env0 (at 2000) state0
        \<lparr>logoutRefreshToken = Some (generateRefreshToken ref_libs env0 1000 alice),
         logoutAuthorization = Some (''Bearer '' @ generateAuthToken ref_libs env0 1000 alice)\<rparr>))
   \<and> redis_ttl 2000
        (redis (fst (logout ref_libs env0 (at 2000) state0
          \<lparr>logoutRefreshToken = Some (generateRefreshToken ref_libs env0 1000 alice),
           logoutAuthorization =
             Some (''Bearer '' @ generateAuthToken ref_libs env0 1000 alice)\<rparr>)))
        (blacklistKey (generateAuthToken ref_libs env0 1000 alice)) = Some (Num 86400)
   \<and> succeeded (snd (changePassword ref_libs env0 (at 2000) state0
        (Some (''Bearer '' @ generateAuthToken ref_libs env0 1000 alice))
        \<lparr>currentPassword = ''Passw0rd!'', newPassword = ''N3w!Passw0rd'', changeErrors = []\<rparr>))
   \<and> redis_ttl 2000
        (redis (fst (changePassword ref_libs env0 (at 2000) state0
          (Some (''Bearer '' @ generateAuthToken ref_libs env0 1000 alice))
          \<lparr>currentPassword = ''Passw0rd!'', newPassword = ''N3w!Passw0rd'',
           changeErrors = []\<rparr>)))
        (blacklistKey (generateAuthToken ref_libs env0 1000 alice)) = Some (Num 86400)"
proof -
  let ?h = "Some (''Bearer '' @ generateAuthToken ref_libs env0 1000 alice)"
  let ?r = "\<lparr>logoutRefreshToken = Some (generateRefreshToken ref_libs env0 1000 alice),
         logoutAuthorization = ?h\<rparr>"
  let ?b = "\<lparr>currentPassword = ''Passw0rd!'', newPassword = ''N3w!Passw0rd'', changeErrors = []\<rparr>"
  have h1: "isRedisEnabled env0" by (simp add: isRedisEnabled_def env0_def)
  have h2: "truthy ?h" by simp
  have h3: "succeeded (snd (logout ref_libs env0 (at 2000) state0 ?r))"
    by (simp add: logout_outcome js_defs user_defs ref_defs)
  have h4: "succeeded (snd (changePassword ref_libs env0 (at 2000) state0 ?h ?b))"
    by (simp add: change_eval)
  have k: "substring 7 (the ?h) = generateAuthToken ref_libs env0 1000 alice"
    by (simp add: substring_def)
  have n: "now (at 2000) = 2000" by (simp add: at_def)
  have u: "JWT_EXPIRES_IN env0 = None" by (simp add: env0_def)
  from C4_blacklist_ttl_is_configured_duration [OF h1]
  obtain d where
    lo: "\<forall>L c st rt h. truthy h
        \<and> succeeded (snd (logout L env0 c st \<lparr>logoutRefreshToken = rt, logoutAuthorization = h\<rparr>))
        \<longrightarrow> redis_ttl (now c)
              (redis (fst (logout L env0 c st
                 \<lparr>logoutRefreshToken = rt, logoutAuthorization = h\<rparr>)))
              (blacklistKey (substring 7 (the h))) = Some d"
    and ch: "\<forall>L c st h b. truthy h \<and> succeeded (snd (changePassword L env0 c st h b))
        \<longrightarrow> redis_ttl (now c) (redis (fst (changePassword L env0 c st h b)))
              (blacklistKey (substring 7 (the h))) = Some d"
    and un: "JWT_EXPIRES_IN env0 = None \<longrightarrow> d = Num 86400"
    by (elim exE conjE) (rule that)
  from un u have d: "d = Num 86400" by (rule mp)
  from lo [rule_format, OF conjI [OF h2 h3]] ch [rule_format, OF conjI [OF h2 h4]]
  have "redis_ttl (now (at 2000)) (redis (fst (logout ref_libs env0 (at 2000) state0 ?r)))
        (blacklistKey (substring 7 (the ?h))) = Some (Num 86400)"
    and "redis_ttl (now (at 2000))
        (redis (fst (changePassword ref_libs env0 (at 2000) state0 ?h ?b)))
        (blacklistKey (substring 7 (the ?h))) = Some (Num 86400)"
    by (simp_all only: d)
  then have "redis_ttl 2000 (redis (fst (logout ref_libs env0 (at 2000) state0 ?r)))
        (blacklistKey (generateAuthToken ref_libs env0 1000 alice)) = Some (Num 86400)"
    and "redis_ttl 2000 (redis (fst (changePassword ref_libs env0 (at 2000) state0 ?h ?b)))
        (blacklistKey (generateAuthToken ref_libs env0 1000 alice)) = Some (Num 86400)"
    by (simp_all only: k n)
  with h1 h2 h3 h4 u show ?thesis by blast
qed

text \<open>
  The time to live is not the remaining validity: the access token issued at second 1000
  expires at second 87400, so at the logout at second 2000 it has 85400 seconds left, and it
  is black-listed for 86400 seconds.
\<close>

theorem C4_counterexample:
  "remainingValidity ref_libs env0 2000 (generateAuthToken ref_libs env0 1000 alice) = Some 85400
   \<and> redis_ttl 2000
        (redis (fst (logout ref_libs env0 (at 2000) state0
          \<lparr>logoutRefreshToken = Some (generateRefreshToken ref_libs env0 1000 alice),
           logoutAuthorization =
             Some (''Bearer '' @ generateAuthToken ref_libs env0 1000 alice)\<rparr>)))
        (blacklistKey (generateAuthToken ref_libs env0 1000 alice)) = Some (Num 86400)"
  by (simp add: logout_eval remainingValidity_def redis_ttl_def)

section \<open>Refresh-token rotation and the stored hash\<close>

text \<open>
  C3 on the code, with \<open>bcrypt\<close> reading the first 72 bytes of its input. Carol logs in at
  second 1000 and gets a refresh token; her refresh with it at second 1001 succeeds, returns
  another refresh token and writes the hash of that one into her slot. The two tokens agree
  on their first 72 characters (header, user id and type come before the time of issue), so
  the old token still passes the stored-hash comparison, and a refresh with it at second
  1002 succeeds again: the rotation does not retire the old token.
\<close>

theorem C3_old_refresh_token_accepted_after_rotation:
  "succeeded (snd (loginAt 1000 state2))
   \<and> refreshToken (projr (snd (loginAt 1000 state2))) =
       ''eyJhbGciOiJIUzI1NiIsInR5cCI6IkpXVCJ9|64f0c2a1b2c3d4e5f6a7b8c9|+refresh|-|-|-|1000|605800|k''
   \<and> succeeded (snd (refresh ref_libs env0 (at 1001) (fst (loginAt 1000 state2))
        (Some (refreshToken (projr (snd (loginAt 1000 state2)))))))
   \<and> tRefreshToken (projr (snd (refresh ref_libs env0 (at 1001) (fst (loginAt 1000 state2))
        (Some (refreshToken (projr (snd (loginAt 1000 state2)))))))) =
       ''eyJhbGciOiJIUzI1NiIsInR5cCI6IkpXVCJ9|64f0c2a1b2c3d4e5f6a7b8c9|+refresh|-|-|-|1001|605801|k''
   \<and> redis (fst (refresh ref_libs env0 (at 1001) (fst (loginAt 1000 state2))
        (Some (refreshToken (projr (snd (loginAt 1000 state2)))))))
       (refreshKey ''64f0c2a1b2c3d4e5f6a7b8c9'') =
       Some (1001, Num 604800, ref_bcrypt_hash ''pepper''
         ''eyJhbGciOiJIUzI1NiIsInR5cCI6IkpXVCJ9|64f0c2a1b2c3d4e5f6a7b8c9|+refresh|-|-|-|1001|605801|k'')
   \<and> storedHashCheck ref_libs 1002
        (fst (refresh ref_libs env0 (at 1001) (fst (loginAt 1000 state2))
          (Some (refreshToken (projr (snd (loginAt 1000 state2)))))))
        ''64f0c2a1b2c3d4e5f6a7b8c9'' (refreshToken (projr (snd (loginAt 1000 state2)))) = None
   \<and> succeeded (snd (refresh ref_libs env0 (at 1002)
        (fst (refresh ref_libs env0 (at 1001) (fst (loginAt 1000 state2))
          (Some (refreshToken (projr (snd (loginAt 1000 state2)))))))
        (Some (refreshToken (projr (snd (loginAt 1000 state2)))))))"
proof -
  let ?old = "refreshToken (projr (snd (loginAt 1000 state2)))"
  let ?st = "fst (loginAt 1000 state2)"
  let ?st' = "fst (refresh ref_libs env0 (at 1001) ?st (Some ?old))"
  have a: "succeeded (snd (loginAt 1000 state2))" by (simp add: login_eval)
  have b: "?old =
      ''eyJhbGciOiJIUzI1NiIsInR5cCI6IkpXVCJ9|64f0c2a1b2c3d4e5f6a7b8c9|+refresh|-|-|-|1000|605800|k''"
    by (simp add: login_eval)
  have c: "succeeded (snd (refresh ref_libs env0 (at 1001) ?st (Some ?old)))"
    by (simp add: refresh_eval)
  have d: "tRefreshToken (projr (snd (refresh ref_libs env0 (at 1001) ?st (Some ?old)))) =
      ''eyJhbGciOiJIUzI1NiIsInR5cCI6IkpXVCJ9|64f0c2a1b2c3d4e5f6a7b8c9|+refresh|-|-|-|1001|605801|k''"
    by (simp add: refresh_eval)
  have e: "redis ?st' (refreshKey ''64f0c2a1b2c3d4e5f6a7b8c9'') =
      Some (1001, Num 604800, ref_bcrypt_hash ''pepper''
        ''eyJhbGciOiJIUzI1NiIsInR5cCI6IkpXVCJ9|64f0c2a1b2c3d4e5f6a7b8c9|+refresh|-|-|-|1001|605801|k'')"
    by (simp add: refresh_eval)
  have f: "storedHashCheck ref_libs 1002 ?st' ''64f0c2a1b2c3d4e5f6a7b8c9'' ?old = None"
    by (simp add: refresh_eval)
  have g: "succeeded (snd (refresh ref_libs env0 (at 1002) ?st' (Some ?old)))"
    by (simp add: refresh_eval)
  from a b c d e f g show ?thesis by blast
qed

section \<open>One refresh-token slot per user\<close>

text \<open>
  C9 on the code, with \<open>bcrypt\<close> reading the first 72 bytes of its input. Carol logs in at
  second 1000 and again at second 1001, and gets two different refresh tokens. Her slot then
  holds one hash, that of the second token; the two tokens agree on their first 72
  characters, so at second 1002 both pass the stored-hash check, and a refresh with the
  first one succeeds: the later login has not invalidated the earlier token.
\<close>

theorem C9_earlier_refresh_token_survives_later_login:
  "succeeded (snd (loginAt 1000 state2))
   \<and> succeeded (snd (loginAt 1001 (fst (loginAt 1000 state2))))
   \<and> refreshToken (projr (snd (loginAt 1000 state2))) =
       ''eyJhbGciOiJIUzI1NiIsInR5cCI6IkpXVCJ9|64f0c2a1b2c3d4e5f6a7b8c9|+refresh|-|-|-|1000|605800|k''
   \<and> refreshToken (projr (snd (loginAt 1001 (fst (loginAt 1000 state2))))) =
       ''eyJhbGciOiJIUzI1NiIsInR5cCI6IkpXVCJ9|64f0c2a1b2c3d4e5f6a7b8c9|+refresh|-|-|-|1001|605801|k''
   \<and> redis (fst (loginAt 1001 (fst (loginAt 1000 state2))))
       (refreshKey ''64f0c2a1b2c3d4e5f6a7b8c9'') =
       Some (1001, Num 604800, ref_bcrypt_hash ''pepper''
         (refreshToken (projr (snd (loginAt 1001 (fst (loginAt 1000 state2)))))))
   \<and> storedHashCheck ref_libs 1002 (fst (loginAt 1001 (fst (loginAt 1000 state2))))
       ''64f0c2a1b2c3d4e5f6a7b8c9''
       (refreshToken (projr (snd (loginAt 1001 (fst (loginAt 1000 state2)))))) = None
   \<and> storedHashCheck ref_libs 1002 (fst (loginAt 1001 (fst (loginAt 1000 state2))))
       ''64f0c2a1b2c3d4e5f6a7b8c9'' (refreshToken (projr (snd (loginAt 1000 state2)))) = None
   \<and> succeeded (snd (refresh ref_libs env0 (at 1002)
        (fst (loginAt 1001 (fst (loginAt 1000 state2))))
        (Some (refreshToken (projr (snd (loginAt 1000 state2)))))))"
proof -
  let ?st = "fst (loginAt 1000 state2)"
  let ?old = "refreshToken (projr (snd (loginAt 1000 state2)))"
  let ?new = "refreshToken (projr (snd (loginAt 1001 ?st)))"
  let ?st' = "fst (loginAt 1001 ?st)"
  have a: "succeeded (snd (loginAt 1000 state2))" by (simp add: login_eval)
  have b: "succeeded (snd (loginAt 1001 ?st))" by (simp add: login_eval)
  have c: "?old =
      ''eyJhbGciOiJIUzI1NiIsInR5cCI6IkpXVCJ9|64f0c2a1b2c3d4e5f6a7b8c9|+refresh|-|-|-|1000|605800|k''"
    by (simp add: login_eval)
  have d: "?new =
      ''eyJhbGciOiJIUzI1NiIsInR5cCI6IkpXVCJ9|64f0c2a1b2c3d4e5f6a7b8c9|+refresh|-|-|-|1001|605801|k''"
    by (simp add: login_eval)
  have e: "redis ?st' (refreshKey ''64f0c2a1b2c3d4e5f6a7b8c9'') =
      Some (1001, Num 604800, ref_bcrypt_hash ''pepper'' ?new)"
    by (simp add: login_eval)
  have f: "storedHashCheck ref_libs 1002 ?st' ''64f0c2a1b2c3d4e5f6a7b8c9'' ?new = None"
    by (simp add: refresh_eval)
  have g: "storedHashCheck ref_libs 1002 ?st' ''64f0c2a1b2c3d4e5f6a7b8c9'' ?old = None"
    by (simp add: refresh_eval)
  have h: "succeeded (snd (refresh ref_libs env0 (at 1002) ?st' (Some ?old)))"
    by (simp add: refresh_eval)
  from a b c d e f g h show ?thesis by blast
qed

section \<open>Password-reset requests\<close>

text \<open>When the mail transport delivers, a known and an unknown e-mail get the same answer.\<close>

lemma forgotPassword_same_when_delivered:
  assumes "sendMailError c = None" and "forgotErrors b = forgotErrors b'"
  shows "snd (forgotPassword L e c st b) = snd (forgotPassword L e c st b')"
  using assms
  by (simp add: forgotPassword_def sendPasswordResetEmail_def Let_def split: option.splits)

lemmas forgot_eval = forgotPassword_def sendPasswordResetEmail_def forgotMessage_def
  passwordResetKey_def Let_def
  js_defs error_defs store_defs user_defs ref_defs

text \<open>
  C6. The handler means to answer a password-reset request the same way whether or not the
  e-mail is registered. It does so only while the mail transport delivers: the e-mail is
  sent, and awaited, on the path of a registered e-mail alone, so when \<open>sendMail\<close> rejects,
  the request for Alice's registered e-mail ends in an error (status 500) while the request
  for an unregistered e-mail, in the same surroundings, gets the success response.
\<close>

theorem C6_forgot_password_differs_on_mail_failure:
  "snd (forgotPassword ref_libs env0 ((at 5)\<lparr>sendMailError := Some ''connect ECONNREFUSED''\<rparr>)
      state0 \<lparr>forgotEmail = ''alice@example.com'', forgotErrors = []\<rparr>) =
     Inl (Error ''connect ECONNREFUSED'')
   \<and> statusCode (Error ''connect ECONNREFUSED'') = 500
   \<and> snd (forgotPassword ref_libs env0 ((at 5)\<lparr>sendMailError := Some ''connect ECONNREFUSED''\<rparr>)
      state0 \<lparr>forgotEmail = ''nobody@example.com'', forgotErrors = []\<rparr>) =
     Inr \<lparr>pStatus = 200,
          pMessage = ''If an account with that email exists, a password reset link has been sent''\<rparr>"
  by (simp add: forgot_eval)

section \<open>The ownership guard\<close>

text \<open>With an identity whose \<open>id\<close> is a string, the guard lets through the admin, the owner
  and the team members, and nobody else.\<close>

lemma requireOwnership_string_id:
  assumes "findResourceById model (map_of params field) = Some r" and "ruId u = JString i"
  shows "requireOwnership model field (Some u) params =
     (if ruRole u = ''admin'' \<or> ownerField r = Some i
         \<or> (\<exists>ms. teamMembers r = Some ms \<and> i \<in> set ms)
      then Inr r
      else Inl (ApiError 403 ''Access denied. You do not own this resource''))"
  using assms
  by (auto simp: requireOwnership_def authorizationErrorHandler_def list_ex_iff
      split: option.splits)

text \<open>With the identity the authenticate guard attaches, whose \<open>id\<close> is the ObjectId of the
  stored user, no comparison with \<open>req.user.id\<close> holds: only an admin gets through.\<close>

lemma requireOwnership_objectId:
  assumes "findResourceById model (map_of params field) = Some r" and "ruId u = JObjectId i"
  shows "requireOwnership model field (Some u) params =
     (if ruRole u = ''admin'' then Inr r
      else Inl (ApiError 403 ''Access denied. You do not own this resource''))"
  using assms
  by (auto simp: requireOwnership_def authorizationErrorHandler_def list_ex_iff
      split: option.splits)

lemma verifyToken_id:
  "verifyToken L e c st h = Inr u \<Longrightarrow> \<exists>i. ruId u = JObjectId i"
  by (auto simp: verifyToken_def Let_def split: if_splits sum.splits option.splits)

lemmas ownership_eval = requireOwnership_def findResourceById_def ownerField_def
  notFoundErrorHandler_def verify_eval

text \<open>
  C7. The guard is meant to let the owner and the team members of a resource through. With
  the identity that \<open>verifyToken\<close> attaches it does not: Alice, authenticated with her own
  access token, is refused with 403 on a resource that names her as \<open>createdBy\<close> and lists
  her among its team members.
\<close>

theorem C7_owner_and_member_refused:
  "verifyToken ref_libs env0 (at 2000) state0
      (Some (''Bearer '' @ generateAuthToken ref_libs env0 1000 alice)) =
     Inr \<lparr>ruId = JObjectId ''a1'', ruEmail = ''alice@example.com'', ruRole = ''student'',
          ruFirstName = ''Alice'', ruLastName = ''Liddell'', ruPermissions = [''read:projects'']\<rparr>
   \<and> requireOwnership
       [\<lparr>resourceId = ''r1'', userId = None, createdBy = Some ''a1'',
         teamMembers = Some [''a1'', ''c3'']\<rparr>]
       ''id''
       (Some (projr (verifyToken ref_libs env0 (at 2000) state0
          (Some (''Bearer '' @ generateAuthToken ref_libs env0 1000 alice)))))
       [(''id'', ''r1'')] =
     Inl (ApiError 403 ''Access denied. You do not own this resource'')"
  by (simp add: ownership_eval)

theorem C7_owner_and_member_refused_witness:
  "succeeded (verifyToken ref_libs env0 (at 2000) state0
      (Some (''Bearer '' @ generateAuthToken ref_libs env0 1000 alice)))
   \<and> \<not> succeeded (requireOwnership
       [\<lparr>resourceId = ''r1'', userId = None, createdBy = Some ''a1'',
         teamMembers = Some [''a1'', ''c3'']\<rparr>]
       ''id''
       (Some (projr (verifyToken ref_libs env0 (at 2000) state0
          (Some (''Bearer '' @ generateAuthToken ref_libs env0 1000 alice)))))
       [(''id'', ''r1'')])
   \<and> statusCode (projl (requireOwnership
       [\<lparr>resourceId = ''r1'', userId = None, createdBy = Some ''a1'',
         teamMembers = Some [''a1'', ''c3'']\<rparr>]
       ''id''
       (Some (projr (verifyToken ref_libs env0 (at 2000) state0
          (Some (''Bearer '' @ generateAuthToken ref_libs env0 1000 alice)))))
       [(''id'', ''r1'')])) = 403"
proof -
  note t = C7_owner_and_member_refused
  from t [THEN conjunct1]
  have 1: "succeeded (verifyToken ref_libs env0 (at 2000) state0
      (Some (''Bearer '' @ generateAuthToken ref_libs env0 1000 alice)))"
    by (simp only: succeeded.simps)
  from t [THEN conjunct2]
  have 2: "\<not> succeeded (requireOwnership
       [\<lparr>resourceId = ''r1'', userId = None, createdBy = Some ''a1'',
         teamMembers = Some [''a1'', ''c3'']\<rparr>]
       ''id''
       (Some (projr (verifyToken ref_libs env0 (at 2000) state0
          (Some (''Bearer '' @ generateAuthToken ref_libs env0 1000 alice)))))
       [(''id'', ''r1'')])"
    by (simp only: succeeded.simps not_False_eq_True)
  from t [THEN conjunct2]
  have 3: "statusCode (projl (requireOwnership
       [\<lparr>resourceId = ''r1'', userId = None, createdBy = Some ''a1'',
         teamMembers = Some [''a1'', ''c3'']\<rparr>]
       ''id''
       (Some (projr (verifyToken ref_libs env0 (at 2000) state0
          (Some (''Bearer '' @ generateAuthToken ref_libs env0 1000 alice)))))
       [(''id'', ''r1'')])) = 403"
    by (simp only: sum.sel statusCode.simps)
  from 1 2 3 show ?thesis by blast
qed

end
